theory Spec2Isabelle
  imports Complex_Main "HOL-Library.Sublist"
begin

section \<open>Data model\<close>

text \<open>
  The transaction record of \<^verbatim>\<open>useTransactionQueue.ts\<close>:
  \<^verbatim>\<open>
  export interface QueuedTransaction {
    id: string;
    type: 'start' | 'end' | 'jump';
    status: 'pending' | 'confirmed' | 'failed';
    timestamp: number;
    hash?: string;
    data?: any;
    error?: string;
  }
  \<close>
  Field names carry the prefix \<open>tx_\<close> (\<open>id\<close> and \<open>type\<close> are taken in HOL).
  An optional field is an \<open>option\<close>, \<open>None\<close> standing for \<^verbatim>\<open>undefined\<close>.
  The status is an \<open>option\<close> as well: the declared type has no \<^verbatim>\<open>undefined\<close>, but
  \<^verbatim>\<open>updateTransaction\<close> can store one at run time (see below), and
  \<^verbatim>\<open>JSON.stringify\<close> then drops the key.
\<close>

datatype tx_type = StartTx | EndTx | JumpTx

datatype tx_status = Pending | Confirmed | Failed

text \<open>
  A JavaScript \<^verbatim>\<open>number\<close> where the source tests \<^verbatim>\<open>isNaN\<close>: an integer or NaN.
  After a round trip through JSON, NaN is \<^verbatim>\<open>null\<close>; \<open>NaN\<close> stands for that too.
\<close>

datatype number = NaN | Num int

text \<open>
  The \<^verbatim>\<open>data\<close> payload is \<^verbatim>\<open>any\<close> in the source. The record below has the keys that
  the repository writes or reads: \<^verbatim>\<open>gameId\<close>, \<^verbatim>\<open>finalScore\<close>, \<^verbatim>\<open>totalJumps\<close>,
  \<^verbatim>\<open>localOnly\<close>, \<^verbatim>\<open>error\<close>, \<^verbatim>\<open>address\<close>, \<^verbatim>\<open>jumps\<close>. An absent key is \<open>None\<close>
  (\<open>False\<close> for the flag \<^verbatim>\<open>localOnly\<close>, which is only ever written as \<^verbatim>\<open>true\<close>).
\<close>

record payload =
  d_gameId :: "number option"
  d_finalScore :: "number option"
  d_totalJumps :: "int option"
  d_localOnly :: bool
  d_error :: "string option"
  d_address :: "string option"
  d_jumps :: "int option"

record QueuedTransaction =
  tx_id :: string
  tx_type :: tx_type
  tx_status :: "tx_status option"
  tx_timestamp :: int
  tx_hash :: "string option"
  tx_data :: "payload option"
  tx_error :: "string option"

text \<open>
  \<^verbatim>\<open>Partial<QueuedTransaction>\<close>: for each key, \<open>None\<close> when the object does not have
  the key and \<open>Some v\<close> when it has it with value \<open>v\<close>. For the keys that may hold
  \<^verbatim>\<open>undefined\<close> (the optional fields, and \<^verbatim>\<open>status\<close> after normalisation) the value
  is itself an \<open>option\<close>, so \<open>Some None\<close> is "key present, value \<^verbatim>\<open>undefined\<close>".
\<close>

record tx_updates =
  u_id :: "string option"
  u_type :: "tx_type option"
  u_status :: "tx_status option option"
  u_timestamp :: "int option"
  u_hash :: "string option option"
  u_data :: "payload option option"
  u_error :: "string option option"

definition no_updates :: tx_updates where
  "no_updates = \<lparr>u_id = None, u_type = None, u_status = None, u_timestamp = None,
     u_hash = None, u_data = None, u_error = None\<rparr>"

section \<open>Transaction queue (useTransactionQueue.ts)\<close>

text \<open>
  Object spread \<^verbatim>\<open>{ ...tx, ...updates }\<close>: every own key of \<^verbatim>\<open>updates\<close> overwrites the
  key of \<^verbatim>\<open>tx\<close>, also when its value is \<^verbatim>\<open>undefined\<close>.
\<close>

definition spread :: "QueuedTransaction \<Rightarrow> tx_updates \<Rightarrow> QueuedTransaction" where
  "spread tx u =
     \<lparr>tx_id = (case u_id u of None \<Rightarrow> tx_id tx | Some v \<Rightarrow> v),
      tx_type = (case u_type u of None \<Rightarrow> tx_type tx | Some v \<Rightarrow> v),
      tx_status = (case u_status u of None \<Rightarrow> tx_status tx | Some v \<Rightarrow> v),
      tx_timestamp = (case u_timestamp u of None \<Rightarrow> tx_timestamp tx | Some v \<Rightarrow> v),
      tx_hash = (case u_hash u of None \<Rightarrow> tx_hash tx | Some v \<Rightarrow> v),
      tx_data = (case u_data u of None \<Rightarrow> tx_data tx | Some v \<Rightarrow> v),
      tx_error = (case u_error u of None \<Rightarrow> tx_error tx | Some v \<Rightarrow> v)\<rparr>"

text \<open>
  \<^verbatim>\<open>
  const normalizedUpdates = {
    ...updates,
    status: updates.status ? String(updates.status) : undefined
  };
  \<close>
  The result always has the key \<^verbatim>\<open>status\<close>; its value is \<^verbatim>\<open>undefined\<close> when
  \<^verbatim>\<open>updates\<close> has no status.
\<close>

definition normalizeUpdates :: "tx_updates \<Rightarrow> tx_updates" where
  "normalizeUpdates updates =
     updates\<lparr>u_status := Some (case u_status updates of
                                 Some (Some s) \<Rightarrow> Some s
                               | _ \<Rightarrow> None)\<rparr>"

text \<open>\<^verbatim>\<open>Array.prototype.findIndex\<close>; \<open>None\<close> is the result \<^verbatim>\<open>-1\<close>.\<close>

fun findIndex :: "('a \<Rightarrow> bool) \<Rightarrow> 'a list \<Rightarrow> nat option" where
  "findIndex P [] = None"
| "findIndex P (x # xs) = (if P x then Some 0 else map_option Suc (findIndex P xs))"

text \<open>\<^verbatim>\<open>addToQueue\<close>: \<^verbatim>\<open>setQueue(prevQueue => [...prevQueue, transaction])\<close>.\<close>

definition addToQueue :: "QueuedTransaction \<Rightarrow> QueuedTransaction list \<Rightarrow> QueuedTransaction list" where
  "addToQueue transaction prevQueue = prevQueue @ [transaction]"

text \<open>
  The state updater that \<^verbatim>\<open>updateTransaction(id, updates)\<close> passes to \<^verbatim>\<open>setQueue\<close>:
  \<^verbatim>\<open>
  const index = prevQueue.findIndex(tx => tx.id === id);
  if (index === -1) { return prevQueue; }
  const newQueue = [...prevQueue];
  if (normalizedUpdates.status === 'pending' && newQueue[index].status === 'confirmed') {
    const { status, ...otherUpdates } = normalizedUpdates;
    newQueue[index] = { ...newQueue[index], ...otherUpdates };
  } else {
    newQueue[index] = { ...newQueue[index], ...normalizedUpdates };
  }
  return newQueue;
  \<close>
\<close>

definition updateTransaction ::
  "string \<Rightarrow> tx_updates \<Rightarrow> QueuedTransaction list \<Rightarrow> QueuedTransaction list" where
  "updateTransaction i updates prevQueue =
     (let normalizedUpdates = normalizeUpdates updates in
      case findIndex (\<lambda>tx. tx_id tx = i) prevQueue of
        None \<Rightarrow> prevQueue
      | Some index \<Rightarrow>
          if u_status normalizedUpdates = Some (Some Pending)
             \<and> tx_status (prevQueue ! index) = Some Confirmed
          then (let otherUpdates = normalizedUpdates\<lparr>u_status := None\<rparr>
                in prevQueue[index := spread (prevQueue ! index) otherUpdates])
          else prevQueue[index := spread (prevQueue ! index) normalizedUpdates])"

text \<open>
  \<^verbatim>\<open>updateTransactionStatus\<close> (defined in the hook but not returned by it):
  \<^verbatim>\<open>prevQueue.map(tx => tx.id === id ? { ...tx, status, hash, error } : tx)\<close>.
\<close>

definition updateTransactionStatus ::
  "string \<Rightarrow> tx_status \<Rightarrow> string option \<Rightarrow> string option
   \<Rightarrow> QueuedTransaction list \<Rightarrow> QueuedTransaction list" where
  "updateTransactionStatus i status hash err prevQueue =
     map (\<lambda>tx. if tx_id tx = i
                then tx\<lparr>tx_status := Some status, tx_hash := hash, tx_error := err\<rparr>
                else tx) prevQueue"

text \<open>
  \<^verbatim>\<open>clearOldTransactions\<close>; \<open>now\<close> is the reading of \<^verbatim>\<open>Date.now()\<close>:
  \<^verbatim>\<open>
  const oneHourAgo = Date.now() - (60 * 60 * 1000);
  return prevQueue.filter(tx => tx.status === 'pending' || tx.timestamp > oneHourAgo);
  \<close>
\<close>

definition clearOldTransactions :: "int \<Rightarrow> QueuedTransaction list \<Rightarrow> QueuedTransaction list" where
  "clearOldTransactions now prevQueue =
     (let oneHourAgo = now - (60 * 60 * 1000) in
      filter (\<lambda>tx. tx_status tx = Some Pending \<or> tx_timestamp tx > oneHourAgo) prevQueue)"

text \<open>The sequence of queue states that a sequence of \<^verbatim>\<open>updateTransaction\<close> calls goes through.\<close>

fun run_updates ::
  "(string \<times> tx_updates) list \<Rightarrow> QueuedTransaction list \<Rightarrow> QueuedTransaction list list" where
  "run_updates [] q = [q]"
| "run_updates (c # cs) q = q # run_updates cs (updateTransaction (fst c) (snd c) q)"

text \<open>
  Between two successive queue states, record by record (the update keeps every record at
  its index): no record goes from confirmed to pending.
\<close>

definition no_revert :: "QueuedTransaction list \<Rightarrow> QueuedTransaction list \<Rightarrow> bool" where
  "no_revert q q' =
     list_all2 (\<lambda>old new. tx_status old = Some Confirmed \<longrightarrow> tx_status new \<noteq> Some Pending) q q'"


section \<open>Local storage and the state of the queue hook\<close>

text \<open>
  An entry of the array that \<^verbatim>\<open>endGame\<close> keeps under \<^verbatim>\<open>flappySomnia_localScores\<close>:
  \<^verbatim>\<open>{ gameId, address, score, totalJumps, timestamp }\<close>. \<open>ls_address\<close> is \<open>None\<close>
  when the stored value is not a string, \<open>ls_score\<close> and \<open>ls_timestamp\<close> are \<open>None\<close>
  when the key is absent.
\<close>

record LocalScore =
  ls_gameId :: number
  ls_address :: "string option"
  ls_score :: "number option"
  ls_totalJumps :: int
  ls_timestamp :: "int option"

text \<open>
  \<^verbatim>\<open>localStorage\<close> maps a key to a string; the model keeps what \<^verbatim>\<open>JSON.parse\<close> makes
  of the string: an array of objects (transaction records and score entries are the only
  objects that the code under study writes into an array), a JSON value that is not an
  array (an array method on it raises \<^verbatim>\<open>TypeError\<close>), or a string that
  \<^verbatim>\<open>JSON.parse\<close> rejects (the empty string among them). Writing is taken to succeed.
\<close>

datatype item = TxItem QueuedTransaction | ScoreItem LocalScore

datatype stored_doc = ArrayDoc "item list" | ObjectDoc | Unparsable

type_synonym storage = "string \<Rightarrow> stored_doc option"

definition TRANSACTION_STORAGE_KEY :: string where
  "TRANSACTION_STORAGE_KEY = ''flappySomnia_transactionQueue''"

text \<open>\<^verbatim>\<open>JSON.stringify(queue)\<close>, as \<^verbatim>\<open>JSON.parse\<close> reads it back.\<close>

definition stringify_queue :: "QueuedTransaction list \<Rightarrow> stored_doc" where
  "stringify_queue q = ArrayDoc (map TxItem q)"

text \<open>
  The state that the claims are about: the two state variables of \<^verbatim>\<open>useTransactionQueue\<close>
  (\<^verbatim>\<open>queue\<close>, \<^verbatim>\<open>isPending\<close>), the browser's \<^verbatim>\<open>localStorage\<close>, and the log of the
  \<^verbatim>\<open>endGame\<close> transactions handed to the contract (defined with \<^verbatim>\<open>endGame\<close> below).
\<close>

record ChainCall =
  c_gameId :: number
  c_finalScore :: number
  c_totalJumps :: int
  c_gasLimit :: nat
  c_gasPrice :: nat

record app =
  queue :: "QueuedTransaction list"
  isPending :: bool
  localStorage :: storage
  chainCalls :: "ChainCall list"

text \<open>\<^verbatim>\<open>queue.some(tx => tx.status === 'pending')\<close>\<close>

definition hasPending :: "QueuedTransaction list \<Rightarrow> bool" where
  "hasPending q = list_ex (\<lambda>tx. tx_status tx = Some Pending) q"

text \<open>
  The effect that runs after each change of \<^verbatim>\<open>queue\<close>:
  \<^verbatim>\<open>
  localStorage.setItem(TRANSACTION_STORAGE_KEY, JSON.stringify(queue));
  const hasPending = queue.some(tx => tx.status === 'pending');
  setIsPending(hasPending);
  \<close>
\<close>

definition saveEffect :: "app \<Rightarrow> app" where
  "saveEffect s =
     s\<lparr>localStorage := (localStorage s)(TRANSACTION_STORAGE_KEY \<mapsto> stringify_queue (queue s)),
       isPending := hasPending (queue s)\<rparr>"

text \<open>
  \<^verbatim>\<open>
  const actuallyHasPending = queue.some(tx => tx.status === 'pending');
  if (isPending && !actuallyHasPending) {
    setIsPending(false);
    localStorage.setItem(TRANSACTION_STORAGE_KEY, JSON.stringify(queue));
  }
  return actuallyHasPending;
  \<close>
  The result is the returned value and the state after the call.
\<close>

definition checkAndFixPendingState :: "app \<Rightarrow> bool \<times> app" where
  "checkAndFixPendingState s =
     (let actuallyHasPending = hasPending (queue s) in
      (actuallyHasPending,
       if isPending s \<and> \<not> actuallyHasPending
       then s\<lparr>isPending := False,
              localStorage := (localStorage s)(TRANSACTION_STORAGE_KEY \<mapsto> stringify_queue (queue s))\<rparr>
       else s))"

text \<open>\<^verbatim>\<open>clearQueue\<close>: remove the stored queue, empty the list, reset the flag.\<close>

definition clearQueue :: "app \<Rightarrow> app" where
  "clearQueue s =
     s\<lparr>localStorage := (localStorage s)(TRANSACTION_STORAGE_KEY := None),
       queue := [], isPending := False\<rparr>"

text \<open>
  The states of the hook. React applies a state update and runs the effect of the update
  in separate steps, so each exported operation is a step of its own and the effect is
  another one. The hook starts with an empty queue and the flag \<^verbatim>\<open>false\<close>.
\<close>

inductive reachable :: "app \<Rightarrow> bool" where
  init: "reachable \<lparr>queue = [], isPending = False, localStorage = st, chainCalls = []\<rparr>"
| add: "reachable s \<Longrightarrow> reachable (s\<lparr>queue := addToQueue tx (queue s)\<rparr>)"
| update: "reachable s \<Longrightarrow> reachable (s\<lparr>queue := updateTransaction i u (queue s)\<rparr>)"
| prune: "reachable s \<Longrightarrow> reachable (s\<lparr>queue := clearOldTransactions now (queue s)\<rparr>)"
| clear: "reachable s \<Longrightarrow> reachable (clearQueue s)"
| effect: "reachable s \<Longrightarrow> reachable (saveEffect s)"
| reconcile: "reachable s \<Longrightarrow> reachable (snd (checkAndFixPendingState s))"

section \<open>Jump batching (useCustodialWallet.ts)\<close>

text \<open>
  \<^verbatim>\<open>interface JumpData { timestamp: number; scoreAtJump: number; multiplierAtJump: number; }\<close>
  The numbers are finite; a rational covers the integers that the game passes and the
  fractions that \<^verbatim>\<open>Math.floor\<close> is there for.
\<close>

record JumpData =
  timestamp :: rat
  scoreAtJump :: rat
  multiplierAtJump :: rat

text \<open>
  The state variables of \<^verbatim>\<open>useCustodialWallet\<close> that \<^verbatim>\<open>addJumpToBatch\<close> touches
  (\<^verbatim>\<open>pendingJumps\<close>, \<^verbatim>\<open>processedJumps\<close>, \<^verbatim>\<open>totalJumps\<close>) and the queue of its
  \<^verbatim>\<open>useTransactionQueue\<close>, with the prefix \<open>w_\<close>.
\<close>

record wallet_state =
  w_pendingJumps :: "JumpData list"
  w_processedJumps :: "JumpData list"
  w_totalJumps :: int
  w_transactionQueue :: "QueuedTransaction list"

text \<open>The operator \<^verbatim>\<open>x || d\<close> on a finite number: \<^verbatim>\<open>0\<close> is the falsy one.\<close>

definition js_or :: "rat \<Rightarrow> rat \<Rightarrow> rat" where
  "js_or x d = (if x = 0 then d else x)"

text \<open>
  \<^verbatim>\<open>
  const jump = {
    timestamp: Math.floor(jumpData.timestamp),
    scoreAtJump: jumpData.scoreAtJump || 1,
    multiplierAtJump: jumpData.multiplierAtJump || 1
  };
  \<close>
\<close>

definition makeJump :: "JumpData \<Rightarrow> JumpData" where
  "makeJump jumpData =
     \<lparr>timestamp = of_int \<lfloor>timestamp jumpData\<rfloor>,
      scoreAtJump = js_or (scoreAtJump jumpData) 1,
      multiplierAtJump = js_or (multiplierAtJump jumpData) 1\<rparr>"

text \<open>
  \<^verbatim>\<open>Number.prototype.toString\<close> on an integer, as the template strings that build the
  record ids use it: the decimal digits, most significant first, after the sign. This is
  what JavaScript prints for the integers below \<open>10\<^sup>2\<^sup>1\<close> that a double holds exactly
  (game ids and clock readings are such); beyond that range it prints an exponent form,
  which is not modelled. The digits only enter the ids of the records.
\<close>

definition digit :: "nat \<Rightarrow> char" where
  "digit d = ''0123456789'' ! d"

fun decimal :: "nat \<Rightarrow> string" where
  "decimal n = (if 10 \<le> n then decimal (n div 10) @ [digit (n mod 10)] else [digit n])"

declare decimal.simps [simp del]

definition string_of_int :: "int \<Rightarrow> string" where
  "string_of_int i = (if 0 \<le> i then decimal (nat i) else CHR ''-'' # decimal (nat (- i)))"

definition string_of_number :: "number \<Rightarrow> string" where
  "string_of_number x = (case x of NaN \<Rightarrow> ''NaN'' | Num i \<Rightarrow> string_of_int i)"

text \<open>
  \<^verbatim>\<open>addJumpToBatch\<close>. \<open>now1\<close> and \<open>now2\<close> are the two readings of
  \<^verbatim>\<open>Date.now()\<close> (the batch id and the record's timestamp). The keys \<^verbatim>\<open>batchNumber\<close> and
  \<^verbatim>\<open>totalBatches\<close> of the batch record's data are read nowhere and are left out.
  \<^verbatim>\<open>
  setTotalJumps(prev => prev + 1);
  setPendingJumps(prev => {
    const newJumps = [...prev, jump];
    if (newJumps.length >= 10) {
      const batchToProcess = newJumps.slice(0, 10);
      setProcessedJumps(prevProcessed =>
        [...prevProcessed, ...batchToProcess].slice(-50));
      addToQueue({ id: `batch-${Date.now()}`, type: 'jump', status: 'confirmed',
                   timestamp: Date.now(), data: { jumps: batchToProcess.length, ... } });
      return newJumps.slice(10);
    }
    return newJumps;
  });
  \<close>
\<close>

definition slice_last :: "nat \<Rightarrow> 'a list \<Rightarrow> 'a list" where
  "slice_last k xs = drop (length xs - k) xs"

definition addJumpToBatch :: "int \<Rightarrow> int \<Rightarrow> JumpData \<Rightarrow> wallet_state \<Rightarrow> wallet_state" where
  "addJumpToBatch now1 now2 jumpData w =
     (let jump = makeJump jumpData;
          newJumps = w_pendingJumps w @ [jump]
      in if length newJumps \<ge> 10
         then (let batchToProcess = take 10 newJumps in
               w\<lparr>w_totalJumps := w_totalJumps w + 1,
                 w_processedJumps := slice_last 50 (w_processedJumps w @ batchToProcess),
                 w_transactionQueue := addToQueue
                   \<lparr>tx_id = ''batch-'' @ string_of_int now1, tx_type = JumpTx,
                    tx_status = Some Confirmed, tx_timestamp = now2, tx_hash = None,
                    tx_data = Some \<lparr>d_gameId = None, d_finalScore = None, d_totalJumps = None,
                                    d_localOnly = False, d_error = None, d_address = None,
                                    d_jumps = Some (int (length batchToProcess))\<rparr>,
                    tx_error = None\<rparr> (w_transactionQueue w),
                 w_pendingJumps := drop 10 newJumps\<rparr>)
         else w\<lparr>w_totalJumps := w_totalJumps w + 1, w_pendingJumps := newJumps\<rparr>)"

section \<open>Errors and strings\<close>

text \<open>
  A thrown value is represented by its \<^verbatim>\<open>message\<close> property, \<open>None\<close> when the value
  has none. \<^verbatim>\<open>s.includes(sub)\<close> is the (case-sensitive) substring test, and
  \<^verbatim>\<open>error.message?.includes(sub)\<close> is falsy when there is no message.
\<close>

type_synonym js_error = "string option"

definition str_includes :: "string \<Rightarrow> string \<Rightarrow> bool" where
  "str_includes s sub = sublist sub s"

definition message_includes :: "js_error \<Rightarrow> string \<Rightarrow> bool" where
  "message_includes error sub = (case error of None \<Rightarrow> False | Some m \<Rightarrow> str_includes m sub)"

text \<open>\<^verbatim>\<open>String.prototype.toLowerCase\<close> on the ASCII letters of an address.\<close>

definition lower_char :: "char \<Rightarrow> char" where
  "lower_char c =
     (case map_of (zip ''ABCDEFGHIJKLMNOPQRSTUVWXYZ'' ''abcdefghijklmnopqrstuvwxyz'') c of
        None \<Rightarrow> c | Some l \<Rightarrow> l)"

definition toLowerCase :: "string \<Rightarrow> string" where
  "toLowerCase s = map lower_char s"

section \<open>Submission over several endpoints (sendTransactionWithRetry)\<close>

text \<open>
  What one RPC endpoint answers during one attempt. Each field is the outcome of the
  awaited call of that name: \<open>Inl\<close> a rejection, \<open>Inr\<close> the value.
  \<open>getBlockNumber\<close> is \<open>None\<close> when the probe succeeds. \<open>getFeeData\<close> yields the
  \<^verbatim>\<open>gasPrice\<close> of the fee data, \<open>None\<close> when it is \<^verbatim>\<open>null\<close>. \<open>waitTx\<close> is the race of
  \<^verbatim>\<open>tx.wait()\<close> with the 30 s timer: the rejection of either one (the timer's is
  \<^verbatim>\<open>Error('Transaction timeout')\<close>) or the truth value of \<^verbatim>\<open>receipt.status\<close>.
\<close>

record endpoint =
  getBlockNumber :: "js_error option"
  getTransactionCount :: "js_error + nat"
  getFeeData :: "js_error + nat option"
  getBalance :: "js_error + nat"
  estimateGas :: "js_error + nat"
  sendTx :: "js_error + string"
  waitTx :: "js_error + bool"

text \<open>The overrides of a transaction handed to the contract method (all with \<^verbatim>\<open>type: 0\<close>).\<close>

record TxRequest =
  rq_endpoint :: nat
  rq_nonce :: nat
  rq_gasPrice :: nat
  rq_gasLimit :: nat

text \<open>
  \<^verbatim>\<open>
  const gasPrice = feeData.gasPrice ?
    (BigInt(feeData.gasPrice.toString()) * BigInt(150)) / BigInt(100) :
    BigInt(20e9);
  \<close>
  \<^verbatim>\<open>feeData.gasPrice\<close> is a \<^verbatim>\<open>BigNumber\<close> object or \<^verbatim>\<open>null\<close>; an object is truthy
  whatever its value. The price is not negative, so the truncating division of
  \<^verbatim>\<open>BigInt\<close> is \<open>div\<close>.
\<close>

definition retry_gasPrice :: "nat option \<Rightarrow> nat" where
  "retry_gasPrice feeGasPrice =
     (case feeGasPrice of Some g \<Rightarrow> (g * 150) div 100 | None \<Rightarrow> 20000000000)"

text \<open>
  How the body of the \<^verbatim>\<open>try\<close> block of one attempt ends: with the receipt, with the
  failure of the probe or of the nonce lookup (which the code answers by moving to the
  next endpoint when there is one), or with another exception.
\<close>

datatype attempt = Returned string | ProbeFailed js_error | Threw js_error

text \<open>
  The \<^verbatim>\<open>try\<close> block. \<open>formatEther\<close> is \<^verbatim>\<open>ethers.utils.formatEther\<close>; \<open>wallet\<close> tells
  whether the custodial wallet is set; \<open>ep\<close> is the endpoint's behaviour. The second
  component is the request submitted, if the attempt got that far.
  \<^verbatim>\<open>
  const estimatedGasCost = gasPrice * BigInt(500000); // Use conservative estimate
  if (BigInt(balance.toString()) < estimatedGasCost) {
    throw new Error(`Insufficient funds. Need at least ${formattedBalance} STT for gas.`);
  }
  \<close>
  When the gas estimation fails, the code throws on a message with
  \<^verbatim>\<open>'insufficient funds'\<close> or \<^verbatim>\<open>'execution reverted'\<close> and otherwise goes on with the
  limit 1000000; the limit sent is \<^verbatim>\<open>options.gasLimit || BigInt(1000000)\<close>.
\<close>

definition attempt_body ::
  "bool \<Rightarrow> (nat \<Rightarrow> string) \<Rightarrow> endpoint \<Rightarrow> nat \<Rightarrow> attempt \<times> TxRequest list" where
  "attempt_body wallet formatEther ep currentEndpoint =
     (if \<not> wallet then (Threw (Some ''Wallet not initialized''), [])
      else case getBlockNumber ep of
        Some providerError \<Rightarrow> (ProbeFailed providerError, [])
      | None \<Rightarrow>
       (case getTransactionCount ep of
          Inl nonceError \<Rightarrow> (ProbeFailed nonceError, [])
        | Inr nonce \<Rightarrow>
         (case getFeeData ep of
            Inl e \<Rightarrow> (Threw e, [])
          | Inr feeGasPrice \<Rightarrow>
           (let gasPrice = retry_gasPrice feeGasPrice in
            case getBalance ep of
              Inl e \<Rightarrow> (Threw e, [])
            | Inr balance \<Rightarrow>
             (let estimatedGasCost = gasPrice * 500000 in
              if balance < estimatedGasCost
              then (Threw (Some (''Insufficient funds. Need at least '' @ formatEther balance
                                  @ '' STT for gas.'')), [])
              else
               (let submit = (\<lambda>gasLimit.
                      (let rq = \<lparr>rq_endpoint = currentEndpoint, rq_nonce = nonce,
                                 rq_gasPrice = gasPrice,
                                 rq_gasLimit = (if gasLimit = 0 then 1000000 else gasLimit)\<rparr>
                       in case sendTx ep of
                            Inl e \<Rightarrow> (Threw e, [rq])
                          | Inr hash \<Rightarrow>
                             (case waitTx ep of
                                Inl e \<Rightarrow> (Threw e, [rq])
                              | Inr status \<Rightarrow>
                                  if \<not> status then (Threw (Some ''Transaction failed on-chain''), [rq])
                                  else (Returned hash, [rq]))))
                in case estimateGas ep of
                     Inr gasEstimate \<Rightarrow> submit ((gasEstimate * 150) div 100)
                   | Inl None \<Rightarrow> submit 1000000
                   | Inl (Some msg) \<Rightarrow>
                       if str_includes msg ''insufficient funds''
                       then (Threw (Some ''Not enough STT for gas. Please make sure your wallet has enough STT tokens.''), [])
                       else if str_includes msg ''execution reverted''
                       then (Threw (Some (''Transaction would fail: '' @ msg)), [])
                       else submit 1000000))))))"

text \<open>
  The \<^verbatim>\<open>catch\<close> block's message:
  \<^verbatim>\<open>
  let errorMessage = 'Transaction failed';
  if (error.message?.includes('insufficient funds')) { errorMessage = 'Not enough STT ...'; }
  else if (error.message?.includes('nonce')) { ... }
  else if (error.message?.includes('timeout')) { ... }
  else if (error.message?.includes('user rejected')) { ... }
  \<close>
\<close>

definition errorMessage :: "js_error \<Rightarrow> string" where
  "errorMessage error =
     (if message_includes error ''insufficient funds''
      then ''Not enough STT for gas. Please make sure your wallet has enough STT tokens.''
      else if message_includes error ''nonce''
      then ''Transaction nonce error. Please try again.''
      else if message_includes error ''timeout''
      then ''Transaction timed out. Please try again.''
      else if message_includes error ''user rejected''
      then ''Please approve the transaction in MetaMask.''
      else ''Transaction failed'')"

text \<open>
  \<^verbatim>\<open>sendTransactionWithRetry\<close>. \<open>eps k\<close> is the behaviour of endpoint \<open>k\<close>, \<open>n\<close> is
  \<^verbatim>\<open>RPC_ENDPOINTS.length\<close>. The result is the outcome (\<open>Inl\<close> the error thrown to the
  caller, \<open>Inr\<close> the receipt), the endpoints attempted in order, and the requests
  submitted.
  \<^verbatim>\<open>
  } catch (error: any) {
    ...
    if (currentEndpoint + 1 < RPC_ENDPOINTS.length &&
       (error.message?.includes('timeout') || error.message?.includes('network'))) {
      return sendTransactionWithRetry(contract, method, args, options, maxAttempts, currentEndpoint + 1);
    }
    throw new Error(errorMessage);
  }
  \<close>
  The exception that the probe's own \<^verbatim>\<open>catch\<close> rethrows on the last endpoint is thrown
  inside the outer \<^verbatim>\<open>try\<close> and goes through the same block.
\<close>

function sendTransactionWithRetry ::
  "bool \<Rightarrow> (nat \<Rightarrow> string) \<Rightarrow> (nat \<Rightarrow> endpoint) \<Rightarrow> nat \<Rightarrow> nat
   \<Rightarrow> (js_error + string) \<times> nat list \<times> TxRequest list" where
  "sendTransactionWithRetry wallet formatEther eps n currentEndpoint =
     (let (a, rqs) = attempt_body wallet formatEther (eps currentEndpoint) currentEndpoint;
          next = (\<lambda>r. (fst r, currentEndpoint # fst (snd r), rqs @ snd (snd r)))
      in case a of
           Returned receipt \<Rightarrow> (Inr receipt, [currentEndpoint], rqs)
         | ProbeFailed error \<Rightarrow>
             if currentEndpoint + 1 < n
             then next (sendTransactionWithRetry wallet formatEther eps n (currentEndpoint + 1))
             else (Inl (Some (errorMessage error)), [currentEndpoint], rqs)
         | Threw error \<Rightarrow>
             if currentEndpoint + 1 < n
                \<and> (message_includes error ''timeout'' \<or> message_includes error ''network'')
             then next (sendTransactionWithRetry wallet formatEther eps n (currentEndpoint + 1))
             else (Inl (Some (errorMessage error)), [currentEndpoint], rqs))"
  by pat_completeness auto
termination
  by (relation "measure (\<lambda>(wallet, formatEther, eps, n, currentEndpoint). n - currentEndpoint)") auto

declare sendTransactionWithRetry.simps [simp del]

text \<open>
  \<^verbatim>\<open>handleEndGame\<close> of \<^verbatim>\<open>useCustodialWallet.ts\<close> computes the price of its transaction
  with \<^verbatim>\<open>BigNumber\<close> arithmetic (\<^verbatim>\<open>div\<close> truncates as well):
  \<^verbatim>\<open>
  const gasPrice = feeData.gasPrice
    ? ethers.BigNumber.from(feeData.gasPrice).mul(150).div(100)
    : ethers.BigNumber.from(20e9); // 20 gwei default if no gas price available
  \<close>
\<close>

definition handleEndGame_gasPrice :: "nat option \<Rightarrow> nat" where
  "handleEndGame_gasPrice feeGasPrice =
     (case feeGasPrice of Some g \<Rightarrow> (g * 150) div 100 | None \<Rightarrow> 20000000000)"

section \<open>Ending a game (endGame of useFlappyContract)\<close>

text \<open>
  What the outside world answers during one call of \<^verbatim>\<open>endGame\<close>:
  \<^item> \<open>env_contract\<close>: \<^verbatim>\<open>state.contract\<close> and \<^verbatim>\<open>state.signer\<close> are both set;
  \<^item> \<open>env_switch\<close>: the rejection of \<^verbatim>\<open>switchToSomniaTestnet()\<close>, if any;
  \<^item> \<open>env_getAddress\<close>: \<^verbatim>\<open>state.signer.getAddress()\<close>;
  \<^item> \<open>env_getFeeData\<close>: \<^verbatim>\<open>state.provider?.getFeeData()\<close>, reduced to its \<^verbatim>\<open>gasPrice\<close>;
  \<^item> \<open>env_games\<close>: \<^verbatim>\<open>state.contract.games(gameId)\<close>;
  \<^item> \<open>env_endGame\<close>: \<^verbatim>\<open>state.contract.endGame(...)\<close>, giving the hash of the transaction;
  \<^item> \<open>env_wait\<close>: the rejection, if any, of the race of \<^verbatim>\<open>tx.wait(1)\<close> with the 60 s
    timer;
  \<^item> \<open>env_now l\<close>: the reading of \<^verbatim>\<open>Date.now()\<close> by the call at line \<open>l\<close> of
    \<^verbatim>\<open>src/unnamed/part_000\<close> (each of these calls runs at most once in a call of
    \<^verbatim>\<open>endGame\<close>);
  \<^item> \<open>env_typeError m\<close>: the message of the engine's \<^verbatim>\<open>TypeError\<close> for calling method
    \<open>m\<close> on a value that does not have it.
\<close>

record GameInfo =
  gi_ended :: bool
  gi_player :: string

record endGame_env =
  env_contract :: bool
  env_switch :: "js_error option"
  env_getAddress :: "js_error + string"
  env_getFeeData :: "js_error + nat option"
  env_games :: "js_error + GameInfo"
  env_endGame :: "js_error + string"
  env_wait :: "js_error option"
  env_now :: "nat \<Rightarrow> int"
  env_typeError :: "string \<Rightarrow> string"

text \<open>What \<^verbatim>\<open>endGame\<close> returns: \<^verbatim>\<open>{ success, hash }\<close> or \<^verbatim>\<open>{ success, localOnly, message }\<close>.\<close>

record EndGameResult =
  r_success :: bool
  r_hash :: "string option"
  r_localOnly :: bool
  r_message :: "string option"

definition isNaN :: "number \<Rightarrow> bool" where
  "isNaN x = (x = NaN)"

text \<open>\<^verbatim>\<open>x <= c\<close> and \<^verbatim>\<open>x < c\<close> on a number: false when \<^verbatim>\<open>x\<close> is NaN.\<close>

definition num_le :: "number \<Rightarrow> int \<Rightarrow> bool" where
  "num_le x c = (case x of NaN \<Rightarrow> False | Num i \<Rightarrow> i \<le> c)"

definition num_less :: "number \<Rightarrow> int \<Rightarrow> bool" where
  "num_less x c = (case x of NaN \<Rightarrow> False | Num i \<Rightarrow> i < c)"

definition end_data :: "number \<Rightarrow> number \<Rightarrow> int \<Rightarrow> payload" where
  "end_data gameId finalScore totalJumps =
     \<lparr>d_gameId = Some gameId, d_finalScore = Some finalScore, d_totalJumps = Some totalJumps,
      d_localOnly = False, d_error = None, d_address = None, d_jumps = None\<rparr>"

text \<open>
  \<^verbatim>\<open>
  gasPrice = feeData?.gasPrice ?
    feeData.gasPrice.mul(150).div(100) : // Add 50% buffer
    ethers.utils.parseUnits('20', 'gwei');
  \<close>
  inside a \<^verbatim>\<open>try\<close> whose \<^verbatim>\<open>catch\<close> takes the same default.
\<close>

definition endGame_gasPrice :: "js_error + nat option \<Rightarrow> nat" where
  "endGame_gasPrice feeData =
     (case feeData of
        Inl e \<Rightarrow> 20 * 10 ^ 9
      | Inr None \<Rightarrow> 20 * 10 ^ 9
      | Inr (Some g) \<Rightarrow> (g * 150) div 100)"

text \<open>
  The verification of the game before the transaction. The result is the exception that
  leaves the block, \<open>None\<close> when execution goes on to the submission.
  \<^verbatim>\<open>
  try {
    const gameInfo = await state.contract.games(gameId);
    if (gameInfo.ended) { throw new Error('Game has already ended'); }
    const playerAddress = await state.signer.getAddress();
    if (gameInfo.player.toLowerCase() !== playerAddress.toLowerCase()) {
      throw new Error('You can only end games that you started');
    }
    gameVerified = true;
  } catch (error: any) {
    if (error.message.includes('already ended') || error.message.includes('only end games')) {
      throw error;
    }
    console.warn('Could not verify game state, attempting to end anyway:', error);
  }
  \<close>
  When the caught value has no message, \<^verbatim>\<open>error.message.includes\<close> raises a
  \<^verbatim>\<open>TypeError\<close> out of the \<^verbatim>\<open>catch\<close> block.
\<close>

definition verifyGame :: "endGame_env \<Rightarrow> js_error option" where
  "verifyGame env =
     (let thrown =
        (case env_games env of
           Inl e \<Rightarrow> Some e
         | Inr gameInfo \<Rightarrow>
             if gi_ended gameInfo then Some (Some ''Game has already ended'')
             else (case env_getAddress env of
                     Inl e \<Rightarrow> Some e
                   | Inr playerAddress \<Rightarrow>
                       if toLowerCase (gi_player gameInfo) \<noteq> toLowerCase playerAddress
                       then Some (Some ''You can only end games that you started'')
                       else None))
      in case thrown of
           None \<Rightarrow> None
         | Some error \<Rightarrow>
            (case error of
               None \<Rightarrow> Some (Some (env_typeError env ''includes''))
             | Some m \<Rightarrow>
                 if str_includes m ''already ended'' \<or> str_includes m ''only end games''
                 then Some error else None))"

text \<open>
  Reading the array of local scores:
  \<^verbatim>\<open>
  const localScoresJson = localStorage.getItem('flappySomnia_localScores') || '[]';
  let localScores = [];
  try { localScores = JSON.parse(localScoresJson); } catch (e) { localScores = []; }
  \<close>
  \<open>None\<close> when the parsed value is not an array, so that \<^verbatim>\<open>localScores.push\<close> raises.
\<close>

definition read_localScores :: "storage \<Rightarrow> item list option" where
  "read_localScores st =
     (case st ''flappySomnia_localScores'' of
        None \<Rightarrow> Some []
      | Some Unparsable \<Rightarrow> Some []
      | Some (ArrayDoc xs) \<Rightarrow> Some xs
      | Some ObjectDoc \<Rightarrow> None)"

text \<open>
  \<^verbatim>\<open>saveScoreLocally\<close>. The \<^verbatim>\<open>address\<close> it stores is a promise
  (\<^verbatim>\<open>state.signer.getAddress().catch(...)\<close> is not awaited), which \<^verbatim>\<open>JSON.stringify\<close>
  writes as \<^verbatim>\<open>{}\<close>: not a string.
\<close>

definition saveScoreLocally ::
  "endGame_env \<Rightarrow> number \<Rightarrow> number \<Rightarrow> int \<Rightarrow> app \<Rightarrow> js_error + app" where
  "saveScoreLocally env gameId finalScore totalJumps s =
     (case read_localScores (localStorage s) of
        None \<Rightarrow> Inl (Some (env_typeError env ''push''))
      | Some localScores \<Rightarrow>
          Inr (s\<lparr>localStorage := (localStorage s)(''flappySomnia_localScores'' \<mapsto>
                 ArrayDoc (localScores @
                   [ScoreItem \<lparr>ls_gameId = gameId, ls_address = None, ls_score = Some finalScore,
                               ls_totalJumps = totalJumps,
                               ls_timestamp = Some (env_now env 738 div 1000)\<rparr>]))\<rparr>))"

text \<open>The message chosen by the \<^verbatim>\<open>catch\<close> block of the transaction.\<close>

definition userMessage_of :: "string \<Rightarrow> string" where
  "userMessage_of m =
     (if str_includes m ''CALL_EXCEPTION'' \<or> str_includes m ''transaction failed''
      then ''Game score could not be saved on-chain due to contract error, but was recorded locally.''
      else if str_includes m ''already ended'' then ''This game was already ended.''
      else if str_includes m ''only end games'' then ''You can only end games that you started.''
      else if str_includes m ''timeout''
      then ''Network response took too long. Your score was recorded locally.''
      else if str_includes m ''user rejected''
      then ''Transaction was rejected in your wallet. Your score was recorded locally.''
      else if str_includes m ''insufficient funds''
      then ''Not enough STT tokens to pay for the transaction. Your score was recorded locally.''
      else ''Failed to save your score on the blockchain, but it was recorded locally.'')"

text \<open>The record \<^verbatim>\<open>end-local-...\<close> that both \<^verbatim>\<open>catch\<close> blocks add to the queue.\<close>

definition local_record ::
  "int \<Rightarrow> int \<Rightarrow> number \<Rightarrow> number \<Rightarrow> int \<Rightarrow> string \<Rightarrow> QueuedTransaction" where
  "local_record idTime stamp gameId finalScore totalJumps userMessage =
     \<lparr>tx_id = ''end-local-'' @ string_of_number gameId @ ''-'' @ string_of_int idTime,
      tx_type = EndTx, tx_status = Some Confirmed, tx_timestamp = stamp, tx_hash = None,
      tx_data = Some ((end_data gameId finalScore totalJumps)
                        \<lparr>d_localOnly := True, d_error := Some userMessage\<rparr>),
      tx_error = None\<rparr>"

text \<open>
  The \<^verbatim>\<open>catch (txError)\<close> block: it saves the score, adds the local record and throws
  \<^verbatim>\<open>new Error(userMessage)\<close>. The result is the exception thrown and the state.
\<close>

definition txCatch ::
  "endGame_env \<Rightarrow> number \<Rightarrow> number \<Rightarrow> int \<Rightarrow> js_error \<Rightarrow> app \<Rightarrow> js_error \<times> app" where
  "txCatch env gameId finalScore totalJumps txError s =
     (case saveScoreLocally env gameId finalScore totalJumps s of
        Inl e \<Rightarrow> (e, s)
      | Inr s1 \<Rightarrow>
         (case txError of
            None \<Rightarrow> (Some (env_typeError env ''includes''), s1)
          | Some m \<Rightarrow>
             (let userMessage = userMessage_of m in
              (Some userMessage,
               s1\<lparr>queue := addToQueue
                    (local_record (env_now env 825) (env_now env 830)
                       gameId finalScore totalJumps userMessage) (queue s1)\<rparr>))))"

text \<open>
  The inner \<^verbatim>\<open>try\<close>: the call of the contract with
  \<^verbatim>\<open>{ gasLimit: 5000000, gasPrice, type: 0 }\<close>, the two records added with the hash, the
  redundant local save, and \<^verbatim>\<open>return { success: true, hash: tx.hash }\<close>. Every
  exception inside goes through \<open>txCatch\<close>.
\<close>

definition submitEndGame ::
  "endGame_env \<Rightarrow> number \<Rightarrow> number \<Rightarrow> int \<Rightarrow> string \<Rightarrow> nat \<Rightarrow> app
   \<Rightarrow> (js_error + EndGameResult) \<times> app" where
  "submitEndGame env gameId finalScore totalJumps txId gasPrice s =
     (let failed = (\<lambda>txError st. case txCatch env gameId finalScore totalJumps txError st of
                                    (e, st') \<Rightarrow> (Inl e, st'));
          s0 = s\<lparr>chainCalls := chainCalls s @
                   [\<lparr>c_gameId = gameId, c_finalScore = finalScore, c_totalJumps = totalJumps,
                     c_gasLimit = 5000000, c_gasPrice = gasPrice\<rparr>]\<rparr>
      in case env_endGame env of
           Inl txError \<Rightarrow> failed txError s0
         | Inr hash \<Rightarrow>
            (let s1 = s0\<lparr>queue := addToQueue
                         \<lparr>tx_id = txId, tx_type = EndTx, tx_status = Some Pending,
                          tx_timestamp = env_now env 764, tx_hash = Some hash,
                          tx_data = Some (end_data gameId finalScore totalJumps),
                          tx_error = None\<rparr> (queue s0)\<rparr>
             in case env_wait env of
                  Some txError \<Rightarrow> failed txError s1
                | None \<Rightarrow>
                   (let s2 = s1\<lparr>queue := addToQueue
                                \<lparr>tx_id = txId, tx_type = EndTx, tx_status = Some Confirmed,
                                 tx_timestamp = env_now env 788, tx_hash = Some hash,
                                 tx_data = Some (end_data gameId finalScore totalJumps),
                                 tx_error = None\<rparr> (queue s1)\<rparr>
                    in case saveScoreLocally env gameId finalScore totalJumps s2 of
                         Inl e \<Rightarrow> failed e s2
                       | Inr s3 \<Rightarrow>
                           (Inr \<lparr>r_success = True, r_hash = Some hash, r_localOnly = False,
                                 r_message = None\<rparr>, s3))))"

text \<open>
  The outer \<^verbatim>\<open>try\<close> block up to the submission: validation of the arguments, network
  switch, the pending record, the gas price, the verification.
  \<^verbatim>\<open>
  if (isNaN(gameId) || gameId <= 0) { throw new Error('Invalid game ID'); }
  if (isNaN(finalScore) || finalScore < 0) { throw new Error('Invalid score'); }
  await switchToSomniaTestnet();
  console.log('Using address:', await state.signer.getAddress());
  const txId = `end-${gameId}-${Date.now()}`;
  addToQueue({ id: txId, type: 'end', status: 'pending', timestamp: Date.now(),
               data: { gameId, finalScore, totalJumps } });
  \<close>
  The second test of \<^verbatim>\<open>state.signer\<close>, after the switch, cannot fail once the test at
  the entry of \<^verbatim>\<open>endGame\<close> has passed.
\<close>

definition endGame_try ::
  "endGame_env \<Rightarrow> number \<Rightarrow> number \<Rightarrow> int \<Rightarrow> app \<Rightarrow> (js_error + EndGameResult) \<times> app" where
  "endGame_try env gameId finalScore totalJumps s =
     (if isNaN gameId \<or> num_le gameId 0 then (Inl (Some ''Invalid game ID''), s)
      else if isNaN finalScore \<or> num_less finalScore 0 then (Inl (Some ''Invalid score''), s)
      else case env_switch env of
        Some e \<Rightarrow> (Inl e, s)
      | None \<Rightarrow>
       (case env_getAddress env of
          Inl e \<Rightarrow> (Inl e, s)
        | Inr a \<Rightarrow>
           (let txId = ''end-'' @ string_of_number gameId @ ''-'' @ string_of_int (env_now env 661);
                s1 = s\<lparr>queue := addToQueue
                        \<lparr>tx_id = txId, tx_type = EndTx, tx_status = Some Pending,
                         tx_timestamp = env_now env 668, tx_hash = None,
                         tx_data = Some (end_data gameId finalScore totalJumps),
                         tx_error = None\<rparr> (queue s)\<rparr>;
                gasPrice = endGame_gasPrice (env_getFeeData env)
            in case verifyGame env of
                 Some error \<Rightarrow> (Inl error, s1)
               | None \<Rightarrow> submitEndGame env gameId finalScore totalJumps txId gasPrice s1)))"

text \<open>
  The outer \<^verbatim>\<open>catch\<close> block: another attempt to save the score (its own failure is
  logged and dropped), the local record, and the value returned,
  \<^verbatim>\<open>{ success: true, localOnly: true, message: userMessage }\<close>.
  \<^verbatim>\<open>
  let userMessage = 'Game ended, but score could not be saved on the blockchain.';
  if (error.message) { userMessage = error.message; }
  \<close>
\<close>

definition endGame_catch ::
  "endGame_env \<Rightarrow> number \<Rightarrow> number \<Rightarrow> int \<Rightarrow> js_error \<Rightarrow> app \<Rightarrow> EndGameResult \<times> app" where
  "endGame_catch env gameId finalScore totalJumps error s =
     (let s1 = (case read_localScores (localStorage s) of
                  None \<Rightarrow> s
                | Some localScores \<Rightarrow>
                    s\<lparr>localStorage := (localStorage s)(''flappySomnia_localScores'' \<mapsto>
                        ArrayDoc (localScores @
                          [ScoreItem \<lparr>ls_gameId = gameId, ls_address = None,
                                      ls_score = Some finalScore, ls_totalJumps = totalJumps,
                                      ls_timestamp = Some (env_now env 861 div 1000)\<rparr>]))\<rparr>);
          userMessage = (case error of
                           Some m \<Rightarrow> if m \<noteq> [] then m
                                     else ''Game ended, but score could not be saved on the blockchain.''
                         | None \<Rightarrow> ''Game ended, but score could not be saved on the blockchain.'');
          s2 = s1\<lparr>queue := addToQueue
                   (local_record (env_now env 877) (env_now env 882)
                      gameId finalScore totalJumps userMessage) (queue s1)\<rparr>
      in (\<lparr>r_success = True, r_hash = None, r_localOnly = True, r_message = Some userMessage\<rparr>, s2))"

text \<open>
  \<^verbatim>\<open>endGame(gameId, finalScore, totalJumps, jumps)\<close>; the argument \<^verbatim>\<open>jumps\<close> is not used
  by the body. \<open>Inl\<close> is an exception that reaches the caller, \<open>Inr\<close> the value returned.
  The flag \<^verbatim>\<open>transactionPending\<close> of the hook, set on entry and cleared in
  \<^verbatim>\<open>finally\<close>, is read by nothing here and is left out.
  \<^verbatim>\<open>
  if (!state.contract || !state.signer) { throw new Error('Contract not initialized'); }
  try { ... } catch (error: any) { ... return { success: true, localOnly: true, ... }; }
  \<close>
\<close>

definition endGame ::
  "endGame_env \<Rightarrow> number \<Rightarrow> number \<Rightarrow> int \<Rightarrow> app \<Rightarrow> (js_error + EndGameResult) \<times> app" where
  "endGame env gameId finalScore totalJumps s =
     (if \<not> env_contract env then (Inl (Some ''Contract not initialized''), s)
      else case endGame_try env gameId finalScore totalJumps s of
             (Inr r, s') \<Rightarrow> (Inr r, s')
           | (Inl error, s') \<Rightarrow>
               (case endGame_catch env gameId finalScore totalJumps error s' of
                  (r, s'') \<Rightarrow> (Inr r, s'')))"

section \<open>Leaderboard (updateWithLocalScores of useLeaderboard.ts)\<close>

text \<open>
  \<^verbatim>\<open>interface LeaderboardEntry { address: string; score: number; timestamp: number; }\<close>
  Scores are read from JSON or converted from the contract's integers, so the only
  non-integer is the JSON \<^verbatim>\<open>null\<close> (\<open>NaN\<close> here), which \<^verbatim>\<open>>\<close> and \<^verbatim>\<open>-\<close> take as 0.
\<close>

record LeaderboardEntry =
  e_address :: string
  e_score :: number
  e_timestamp :: int

definition to_num :: "number \<Rightarrow> int" where
  "to_num x = (case x of NaN \<Rightarrow> 0 | Num i \<Rightarrow> i)"

text \<open>
  The filter on the parsed queue, returning for each record that passes its timestamp and
  the three keys of its data that are read afterwards:
  \<^verbatim>\<open>
  const endGameTxs = transactions.filter((tx: any) =>
    tx.type === 'end' && tx.status === 'confirmed' &&
    tx.data?.finalScore !== undefined && tx.data?.gameId !== undefined);
  \<close>
\<close>

definition endGameTx :: "item \<Rightarrow> (int \<times> number \<times> number \<times> string option) option" where
  "endGameTx it =
     (case it of
        ScoreItem sc \<Rightarrow> None
      | TxItem tx \<Rightarrow>
          if tx_type tx = EndTx \<and> tx_status tx = Some Confirmed
          then (case tx_data tx of
                  None \<Rightarrow> None
                | Some d \<Rightarrow>
                   (case (d_finalScore d, d_gameId d) of
                      (Some finalScore, Some gameId) \<Rightarrow>
                        Some (tx_timestamp tx, gameId, finalScore, d_address d)
                    | _ \<Rightarrow> None))
          else None)"

text \<open>
  The object \<^verbatim>\<open>localScores\<close>, keyed by \<^verbatim>\<open>gameId.toString()\<close>, as an association list
  in insertion order; the key is kept as the integer that the string denotes. Assigning
  to an existing key keeps the key's place.
\<close>

fun assign :: "int \<Rightarrow> 'v \<Rightarrow> (int \<times> 'v) list \<Rightarrow> (int \<times> 'v) list" where
  "assign k v [] = [(k, v)]"
| "assign k v (p # ps) = (if fst p = k then (k, v) # ps else p # assign k v ps)"

text \<open>
  \<^verbatim>\<open>
  endGameTxs.forEach((tx: any) => {
    const gameId = tx.data.gameId.toString();
    if (!localScores[gameId] || tx.data.finalScore > localScores[gameId].score) {
      localScores[gameId] = {
        score: tx.data.finalScore,
        timestamp: Math.floor(tx.timestamp / 1000),
        address: tx.data.address ? String(tx.data.address) : 'local_player'
      };
    }
  });
  \<close>
  \<open>None\<close> when \<^verbatim>\<open>gameId\<close> is \<^verbatim>\<open>null\<close>: \<^verbatim>\<open>toString\<close> raises and the enclosing
  \<^verbatim>\<open>try\<close> is left before anything is pushed.
\<close>

fun collect ::
  "(int \<times> number \<times> number \<times> string option) list \<Rightarrow> (int \<times> LeaderboardEntry) list
   \<Rightarrow> (int \<times> LeaderboardEntry) list option" where
  "collect [] localScores = Some localScores"
| "collect ((stamp, gameId, finalScore, addr) # txs) localScores =
     (case gameId of
        NaN \<Rightarrow> None
      | Num g \<Rightarrow>
          if (case map_of localScores g of
                None \<Rightarrow> True
              | Some old \<Rightarrow> to_num finalScore > to_num (e_score old))
          then collect txs
                 (assign g \<lparr>e_address = (case addr of
                                            Some a \<Rightarrow> if a \<noteq> [] then a else ''local_player''
                                          | None \<Rightarrow> ''local_player''),
                              e_score = finalScore,
                              e_timestamp = stamp div 1000\<rparr> localScores)
          else collect txs localScores)"

text \<open>
  \<^verbatim>\<open>Object.values\<close>: the keys that are array indices (the decimal form of an integer
  from 0 to \<open>2\<^sup>3\<^sup>2 - 2\<close>) come first in ascending order, the others follow in insertion
  order.
\<close>

definition is_array_index :: "int \<Rightarrow> bool" where
  "is_array_index k = (0 \<le> k \<and> k < 4294967295)"

definition Object_values :: "(int \<times> 'v) list \<Rightarrow> 'v list" where
  "Object_values obj =
     map snd (sort_key fst (filter (\<lambda>p. is_array_index (fst p)) obj)
              @ filter (\<lambda>p. \<not> is_array_index (fst p)) obj)"

text \<open>
  Step 1 of \<^verbatim>\<open>updateWithLocalScores\<close>: the entries taken from the queue stored under
  \<^verbatim>\<open>flappyFuse_transactionQueue\<close>. A value that does not parse, or on which \<^verbatim>\<open>filter\<close>
  raises, is caught by the inner \<^verbatim>\<open>try\<close> and gives nothing.
\<close>

definition queue_entries :: "storage \<Rightarrow> LeaderboardEntry list" where
  "queue_entries st =
     (case st ''flappyFuse_transactionQueue'' of
        Some (ArrayDoc transactions) \<Rightarrow>
         (let endGameTxs = List.map_filter endGameTx transactions in
          if length endGameTxs > 0
          then (case collect endGameTxs [] of
                  None \<Rightarrow> []
                | Some localScores \<Rightarrow> Object_values localScores)
          else [])
      | _ \<Rightarrow> [])"

text \<open>
  Step 2: the entries of the array stored under \<^verbatim>\<open>flappyFuse_localScores\<close>.
  \<^verbatim>\<open>
  localScores.forEach((score: any) => {
    if (score.score !== undefined) {
      mergedEntries.push({
        address: typeof score.address === 'string' ? score.address : 'local_player',
        score: score.score,
        timestamp: score.timestamp || Math.floor(Date.now() / 1000)
      });
    }
  });
  \<close>
\<close>

definition score_entry :: "int \<Rightarrow> item \<Rightarrow> LeaderboardEntry option" where
  "score_entry now it =
     (case it of
        TxItem tx \<Rightarrow> None
      | ScoreItem sc \<Rightarrow>
         (case ls_score sc of
            None \<Rightarrow> None
          | Some v \<Rightarrow>
              Some \<lparr>e_address = (case ls_address sc of Some a \<Rightarrow> a | None \<Rightarrow> ''local_player''),
                    e_score = v,
                    e_timestamp = (case ls_timestamp sc of
                                     Some t \<Rightarrow> if t \<noteq> 0 then t else now div 1000
                                   | None \<Rightarrow> now div 1000)\<rparr>))"

definition score_entries :: "storage \<Rightarrow> int \<Rightarrow> LeaderboardEntry list" where
  "score_entries st now =
     (case st ''flappyFuse_localScores'' of
        Some (ArrayDoc localScores) \<Rightarrow> List.map_filter (score_entry now) localScores
      | _ \<Rightarrow> [])"

text \<open>
  \<^verbatim>\<open>updateWithLocalScores(currentEntries)\<close>, with the storage and the clock as arguments.
  The entries are typed, so the map that replaces a non-string address changes nothing.
  The sort is stable (\<^verbatim>\<open>Array.prototype.sort\<close> with the comparator
  \<^verbatim>\<open>(a, b) => b.score - a.score\<close>), and \<^verbatim>\<open>slice(0, 10)\<close> keeps the first ten.
\<close>

definition updateWithLocalScores ::
  "storage \<Rightarrow> int \<Rightarrow> LeaderboardEntry list \<Rightarrow> LeaderboardEntry list" where
  "updateWithLocalScores st now currentEntries =
     (let mergedEntries = currentEntries @ queue_entries st @ score_entries st now;
          validEntries = sort_key (\<lambda>e. - to_num (e_score e)) mergedEntries
      in take 10 validEntries)"

section \<open>Observations on the state\<close>

text \<open>
  The local-scores store holds an entry for the game with the given score; the queue holds
  a confirmed end-of-game record for the game, flagged \<^verbatim>\<open>localOnly\<close>, with that score.
\<close>

definition has_local_score :: "number \<Rightarrow> number \<Rightarrow> app \<Rightarrow> bool" where
  "has_local_score gameId finalScore s =
     (case localStorage s ''flappySomnia_localScores'' of
        Some (ArrayDoc xs) \<Rightarrow>
          list_ex (\<lambda>it. case it of
                           ScoreItem sc \<Rightarrow> ls_gameId sc = gameId \<and> ls_score sc = Some finalScore
                         | TxItem tx \<Rightarrow> False) xs
      | _ \<Rightarrow> False)"

definition has_local_record :: "number \<Rightarrow> number \<Rightarrow> app \<Rightarrow> bool" where
  "has_local_record gameId finalScore s =
     list_ex (\<lambda>tx. tx_type tx = EndTx \<and> tx_status tx = Some Confirmed \<and>
                   (case tx_data tx of
                      Some d \<Rightarrow> d_localOnly d \<and> d_gameId d = Some gameId
                                \<and> d_finalScore d = Some finalScore
                    | None \<Rightarrow> False)) (queue s)"

section \<open>Sample inputs\<close>

text \<open>
  Records as the hooks create them: the wallet initialisation confirmed, a funding
  transaction still pending, a game start that failed two hours before the last one.
\<close>

definition tx_confirmed :: QueuedTransaction where
  "tx_confirmed =
     \<lparr>tx_id = ''init-1700000000000'', tx_type = StartTx, tx_status = Some Confirmed,
      tx_timestamp = 1700000000000, tx_hash = None, tx_data = None, tx_error = None\<rparr>"

definition tx_pending :: QueuedTransaction where
  "tx_pending =
     \<lparr>tx_id = ''fund-1700000005000'', tx_type = StartTx, tx_status = Some Pending,
      tx_timestamp = 1700000005000, tx_hash = None, tx_data = None, tx_error = None\<rparr>"

definition tx_failed_old :: QueuedTransaction where
  "tx_failed_old =
     \<lparr>tx_id = ''start-1699992800000'', tx_type = StartTx, tx_status = Some Failed,
      tx_timestamp = 1699992800000, tx_hash = None, tx_data = None,
      tx_error = Some ''Transaction timeout''\<rparr>"

text \<open>
  The updates \<^verbatim>\<open>{ hash: '0xabc', status: 'pending' }\<close> (as \<^verbatim>\<open>requestFunds\<close> sends after
  the transfer) and \<^verbatim>\<open>{ hash: '0xabc' }\<close>.
\<close>

definition upd_hash_pending :: tx_updates where
  "upd_hash_pending = no_updates\<lparr>u_hash := Some (Some ''0xabc''), u_status := Some (Some Pending)\<rparr>"

definition upd_hash_only :: tx_updates where
  "upd_hash_only = no_updates\<lparr>u_hash := Some (Some ''0xabc'')\<rparr>"

text \<open>
  The update \<^verbatim>\<open>{ hash: '0xabc', status: 'pending', error: 'retrying', data: { address: '0xAbC1' },
  timestamp: 1700000009000 }\<close>: a status together with keys of every other kind.
\<close>

definition upd_many_pending :: tx_updates where
  "upd_many_pending =
     no_updates\<lparr>u_hash := Some (Some ''0xabc''), u_status := Some (Some Pending),
                u_error := Some (Some ''retrying''),
                u_data := Some (Some \<lparr>d_gameId = None, d_finalScore = None, d_totalJumps = None,
                                       d_localOnly = False, d_error = None,
                                       d_address = Some ''0xAbC1'', d_jumps = None\<rparr>),
                u_timestamp := Some 1700000009000\<rparr>"

text \<open>
  The hook right after \<^verbatim>\<open>addToQueue\<close> of the pending record, before the effect of the
  change has run.
\<close>

definition stale_false :: app where
  "stale_false = \<lparr>queue = [tx_pending], isPending = False, localStorage = Map.empty, chainCalls = []\<rparr>"

text \<open>The hook with the flag still set after its only pending record has been confirmed.\<close>

definition stale_true :: app where
  "stale_true = \<lparr>queue = [tx_confirmed], isPending = True, localStorage = Map.empty, chainCalls = []\<rparr>"

text \<open>A jump at score 0, as \<^verbatim>\<open>handleJump\<close> of the game makes it before the first pipe.\<close>

definition jump0 :: JumpData where
  "jump0 = \<lparr>timestamp = 1700000000, scoreAtJump = 0, multiplierAtJump = 1\<rparr>"

definition wallet0 :: wallet_state where
  "wallet0 = \<lparr>w_pendingJumps = [], w_processedJumps = [], w_totalJumps = 0, w_transactionQueue = []\<rparr>"

text \<open>
  An endpoint that answers every call, with a fee estimate of 1 gwei, for a signer whose
  balance is 1 STT; the same endpoint for a signer with an empty balance; an endpoint
  whose probe times out.
\<close>

definition ep_ok :: endpoint where
  "ep_ok = \<lparr>getBlockNumber = None, getTransactionCount = Inr 7,
            getFeeData = Inr (Some 1000000000), getBalance = Inr 1000000000000000000,
            estimateGas = Inr 100000, sendTx = Inr ''0xabc'', waitTx = Inr True\<rparr>"

definition ep_poor :: endpoint where
  "ep_poor = ep_ok\<lparr>getBalance := Inr 0\<rparr>"

definition ep_slow :: endpoint where
  "ep_slow = ep_ok\<lparr>sendTx := Inl (Some ''timeout exceeded'')\<rparr>"

text \<open>
  The world of a call \<^verbatim>\<open>endGame(5, 120, 33, jumps)\<close> by the player that started game 5:
  everything answers, and the transaction is confirmed.
\<close>

definition env_ok :: endGame_env where
  "env_ok =
     \<lparr>env_contract = True, env_switch = None, env_getAddress = Inr ''0xAbC1'',
      env_getFeeData = Inr (Some 1000000000),
      env_games = Inr \<lparr>gi_ended = False, gi_player = ''0xabc1''\<rparr>,
      env_endGame = Inr ''0xabc'', env_wait = None,
      env_now = (\<lambda>l. 1700000000000 + int l),
      env_typeError = (\<lambda>m. ''undefined has no method '' @ m)\<rparr>"

text \<open>The same call when the contract reports the game as ended.\<close>

definition env_ended :: endGame_env where
  "env_ended = env_ok\<lparr>env_games := Inr \<lparr>gi_ended = True, gi_player = ''0xabc1''\<rparr>\<rparr>"

text \<open>The same call when the game cannot be read and the submission is rejected without a message.\<close>

definition env_offline :: endGame_env where
  "env_offline = env_ok\<lparr>env_games := Inl (Some ''could not detect network''),
                         env_endGame := Inl None\<rparr>"

definition app0 :: app where
  "app0 = \<lparr>queue = [], isPending = False, localStorage = Map.empty, chainCalls = []\<rparr>"

text \<open>
  The leaderboard example: two entries read from the chain, and the queue holding one
  confirmed end-of-game record for game 5 with score 120 and address C.
\<close>

definition onchain :: "LeaderboardEntry list" where
  "onchain = [\<lparr>e_address = ''A'', e_score = Num 100, e_timestamp = 1700000000\<rparr>,
              \<lparr>e_address = ''B'', e_score = Num 80, e_timestamp = 1700000000\<rparr>]"

definition tx_game5 :: QueuedTransaction where
  "tx_game5 =
     \<lparr>tx_id = ''end-5-1700000000000'', tx_type = EndTx, tx_status = Some Confirmed,
      tx_timestamp = 1700000000000, tx_hash = None,
      tx_data = Some ((end_data (Num 5) (Num 120) 33)\<lparr>d_address := Some ''C''\<rparr>),
      tx_error = None\<rparr>"

definition app_game5 :: app where
  "app_game5 = \<lparr>queue = [tx_game5], isPending = False, localStorage = Map.empty, chainCalls = []\<rparr>"

section \<open>Properties of the queue\<close>

lemma findIndex_Some:
  "findIndex P xs = Some k \<Longrightarrow> k < length xs \<and> P (xs ! k) \<and> (\<forall>j<k. \<not> P (xs ! j))"
proof (induction xs arbitrary: k)
  case Nil
  then show ?case by simp
next
  case (Cons x xs)
  show ?case
  proof (cases "P x")
    case True
    with Cons.prems show ?thesis by simp
  next
    case False
    with Cons.prems obtain k' where k': "findIndex P xs = Some k'" "k = Suc k'"
      by auto
    from Cons.IH [OF k'(1)] False k'(2) show ?thesis
      by (auto simp: less_Suc_eq_0_disj)
  qed
qed

lemma findIndex_None: "findIndex P xs = None \<longleftrightarrow> (\<forall>x\<in>set xs. \<not> P x)"
  by (induction xs) auto

lemma updateTransaction_length: "length (updateTransaction i u q) = length q"
  by (simp add: updateTransaction_def Let_def split: option.splits)

lemma updateTransaction_missing:
  "findIndex (\<lambda>tx. tx_id tx = i) q = None \<Longrightarrow> updateTransaction i u q = q"
  by (simp add: updateTransaction_def Let_def)

lemma updateTransaction_others:
  "findIndex (\<lambda>tx. tx_id tx = i) q = Some k \<Longrightarrow> j \<noteq> k \<Longrightarrow> updateTransaction i u q ! j = q ! j"
  by (simp add: updateTransaction_def Let_def)

lemma updateTransaction_guarded:
  assumes "findIndex (\<lambda>tx. tx_id tx = i) q = Some k"
    and "tx_status (q ! k) = Some Confirmed"
    and "u_status u = Some (Some Pending)"
  shows "updateTransaction i u q = q[k := spread (q ! k) (u\<lparr>u_status := None\<rparr>)]"
  using assms by (simp add: updateTransaction_def Let_def normalizeUpdates_def)

lemma step_no_revert: "no_revert q (updateTransaction i u q)"
proof (cases "findIndex (\<lambda>tx. tx_id tx = i) q")
  case None
  then show ?thesis
    by (simp add: no_revert_def updateTransaction_missing list.rel_refl)
next
  case (Some k)
  then have k: "k < length q" using findIndex_Some by fastforce
  show ?thesis
    unfolding no_revert_def list_all2_conv_all_nth
  proof (intro conjI allI impI)
    show "length q = length (updateTransaction i u q)" by (simp add: updateTransaction_length)
  next
    fix j assume j: "j < length q" and c: "tx_status (q ! j) = Some Confirmed"
    show "tx_status (updateTransaction i u q ! j) \<noteq> Some Pending"
    proof (cases "j = k")
      case True
      with Some k c show ?thesis
        by (auto simp: updateTransaction_def Let_def spread_def normalizeUpdates_def split: option.splits)
    next
      case False
      with Some c show ?thesis by (simp add: updateTransaction_others)
    qed
  qed
qed

lemma run_updates_no_revert: "successively no_revert (run_updates calls q)"
proof (induction calls arbitrary: q)
  case Nil
  show ?case by simp
next
  case (Cons c cs)
  let ?q' = "updateTransaction (fst c) (snd c) q"
  obtain rest where rest: "run_updates cs ?q' = ?q' # rest"
    by (cases cs) simp_all
  from Cons.IH [of ?q'] step_no_revert [of q "fst c" "snd c"] rest
  show ?case by simp
qed

text \<open>
  Claim C1. Along every sequence of \<^verbatim>\<open>updateTransaction\<close> calls from every queue, no
  record goes from confirmed to pending between one state and the next. When the update
  asks for \<^verbatim>\<open>status: 'pending'\<close> and the first record with the given id is confirmed,
  that record keeps the status \<^verbatim>\<open>'confirmed'\<close> and every other key of the update is
  merged into it: each of \<^verbatim>\<open>id\<close>, \<^verbatim>\<open>type\<close>, \<^verbatim>\<open>timestamp\<close>, \<^verbatim>\<open>hash\<close>, \<^verbatim>\<open>data\<close> and
  \<^verbatim>\<open>error\<close> has the value that the update gives it when the update has the key, and its
  previous value otherwise. The queue keeps its length and the records at the other
  indices are left as they are.
\<close>

theorem confirmed_never_reverts_to_pending:
  "successively no_revert (run_updates calls q) \<and>
   (findIndex (\<lambda>tx. tx_id tx = i) q = Some k \<longrightarrow> tx_status (q ! k) = Some Confirmed
      \<longrightarrow> u_status u = Some (Some Pending)
      \<longrightarrow> updateTransaction i u q = q[k := spread (q ! k) (u\<lparr>u_status := None\<rparr>)]
          \<and> tx_status (updateTransaction i u q ! k) = Some Confirmed
          \<and> tx_id (updateTransaction i u q ! k)
               = (case u_id u of None \<Rightarrow> tx_id (q ! k) | Some v \<Rightarrow> v)
          \<and> tx_type (updateTransaction i u q ! k)
               = (case u_type u of None \<Rightarrow> tx_type (q ! k) | Some v \<Rightarrow> v)
          \<and> tx_timestamp (updateTransaction i u q ! k)
               = (case u_timestamp u of None \<Rightarrow> tx_timestamp (q ! k) | Some v \<Rightarrow> v)
          \<and> tx_hash (updateTransaction i u q ! k)
               = (case u_hash u of None \<Rightarrow> tx_hash (q ! k) | Some v \<Rightarrow> v)
          \<and> tx_data (updateTransaction i u q ! k)
               = (case u_data u of None \<Rightarrow> tx_data (q ! k) | Some v \<Rightarrow> v)
          \<and> tx_error (updateTransaction i u q ! k)
               = (case u_error u of None \<Rightarrow> tx_error (q ! k) | Some v \<Rightarrow> v)
          \<and> length (updateTransaction i u q) = length q
          \<and> (\<forall>j < length q. j \<noteq> k \<longrightarrow> updateTransaction i u q ! j = q ! j))"
proof (intro conjI impI allI)
  show "successively no_revert (run_updates calls q)" by (rule run_updates_no_revert)
next
  assume a: "findIndex (\<lambda>tx. tx_id tx = i) q = Some k" "tx_status (q ! k) = Some Confirmed"
    "u_status u = Some (Some Pending)"
  then show "updateTransaction i u q = q[k := spread (q ! k) (u\<lparr>u_status := None\<rparr>)]"
    by (rule updateTransaction_guarded)
  from a(1) have k: "k < length q" using findIndex_Some by fastforce
  have r: "updateTransaction i u q ! k = spread (q ! k) (u\<lparr>u_status := None\<rparr>)"
    using a k by (simp add: updateTransaction_guarded)
  show "tx_status (updateTransaction i u q ! k) = Some Confirmed"
    using a(2) by (simp add: r spread_def)
  show "tx_id (updateTransaction i u q ! k)
          = (case u_id u of None \<Rightarrow> tx_id (q ! k) | Some v \<Rightarrow> v)"
    by (simp add: r spread_def)
  show "tx_type (updateTransaction i u q ! k)
          = (case u_type u of None \<Rightarrow> tx_type (q ! k) | Some v \<Rightarrow> v)"
    by (simp add: r spread_def)
  show "tx_timestamp (updateTransaction i u q ! k)
          = (case u_timestamp u of None \<Rightarrow> tx_timestamp (q ! k) | Some v \<Rightarrow> v)"
    by (simp add: r spread_def)
  show "tx_hash (updateTransaction i u q ! k)
          = (case u_hash u of None \<Rightarrow> tx_hash (q ! k) | Some v \<Rightarrow> v)"
    by (simp add: r spread_def)
  show "tx_data (updateTransaction i u q ! k)
          = (case u_data u of None \<Rightarrow> tx_data (q ! k) | Some v \<Rightarrow> v)"
    by (simp add: r spread_def)
  show "tx_error (updateTransaction i u q ! k)
          = (case u_error u of None \<Rightarrow> tx_error (q ! k) | Some v \<Rightarrow> v)"
    by (simp add: r spread_def)
  show "length (updateTransaction i u q) = length q"
    by (rule updateTransaction_length)
  show "updateTransaction i u q ! j = q ! j" if "j < length q" "j \<noteq> k" for j
    using a(1) that(2) by (rule updateTransaction_others)
qed

theorem confirmed_never_reverts_to_pending_witness:
  "successively no_revert
     (run_updates [(''init-1700000000000'', upd_many_pending)] [tx_pending, tx_confirmed]) \<and>
   findIndex (\<lambda>tx. tx_id tx = ''init-1700000000000'') [tx_pending, tx_confirmed] = Some 1 \<and>
   tx_status ([tx_pending, tx_confirmed] ! 1) = Some Confirmed \<and>
   u_status upd_many_pending = Some (Some Pending) \<and>
   updateTransaction ''init-1700000000000'' upd_many_pending [tx_pending, tx_confirmed]
     = [tx_pending,
        \<lparr>tx_id = ''init-1700000000000'', tx_type = StartTx, tx_status = Some Confirmed,
         tx_timestamp = 1700000009000, tx_hash = Some ''0xabc'',
         tx_data = Some \<lparr>d_gameId = None, d_finalScore = None, d_totalJumps = None,
                         d_localOnly = False, d_error = None,
                         d_address = Some ''0xAbC1'', d_jumps = None\<rparr>,
         tx_error = Some ''retrying''\<rparr>]"
  using confirmed_never_reverts_to_pending
    [of "[(''init-1700000000000'', upd_many_pending)]" "[tx_pending, tx_confirmed]"
        "''init-1700000000000''" 1 upd_many_pending]
  by (simp add: tx_pending_def tx_confirmed_def upd_many_pending_def no_updates_def spread_def
      no_revert_def)

text \<open>
  Claim C6 says that an update that supplies only \<^verbatim>\<open>hash\<close> leaves the status of the
  matched record unchanged. The code does otherwise:
  \<^verbatim>\<open>normalizedUpdates\<close> always carries the key \<^verbatim>\<open>status\<close>, with the value
  \<^verbatim>\<open>undefined\<close> when the update has none, and the spread copies it. On the queue of a
  pending and a confirmed record, \<^verbatim>\<open>updateTransaction('fund-1700000005000', { hash: '0xabc' })\<close>
  turns the status of the pending record into \<^verbatim>\<open>undefined\<close>.
\<close>

theorem update_without_status_erases_status:
  "updateTransaction ''fund-1700000005000'' upd_hash_only [tx_pending, tx_confirmed]
     = [tx_pending\<lparr>tx_hash := Some ''0xabc'', tx_status := None\<rparr>, tx_confirmed]"
  by (simp add: updateTransaction_def normalizeUpdates_def spread_def tx_pending_def
      tx_confirmed_def upd_hash_only_def no_updates_def)

lemma updateTransaction_matched:
  assumes "findIndex (\<lambda>tx. tx_id tx = i) q = Some k"
    and "u_status u = None \<or> u_status u = Some None"
  shows "updateTransaction i u q = q[k := spread (q ! k) (u\<lparr>u_status := Some None\<rparr>)]"
  using assms by (auto simp add: updateTransaction_def Let_def normalizeUpdates_def)

text \<open>
  A consequence for the records that were confirmed: the guard compares with the current
  status, so once an update without status has erased \<^verbatim>\<open>'confirmed'\<close>, a later update
  can set \<^verbatim>\<open>'pending'\<close>. No step goes from confirmed to pending; two steps do.
\<close>

lemma status_erased_then_pending:
  "run_updates [(''init-1700000000000'', upd_hash_only),
                (''init-1700000000000'', upd_hash_pending)] [tx_confirmed]
     = [[tx_confirmed],
        [tx_confirmed\<lparr>tx_hash := Some ''0xabc'', tx_status := None\<rparr>],
        [tx_confirmed\<lparr>tx_hash := Some ''0xabc'', tx_status := Some Pending\<rparr>]]"
  by (simp add: updateTransaction_def normalizeUpdates_def spread_def tx_confirmed_def
      upd_hash_only_def upd_hash_pending_def no_updates_def)

text \<open>
  The guard is in \<^verbatim>\<open>updateTransaction\<close> only: \<^verbatim>\<open>updateTransactionStatus\<close>, which the hook
  does not export, sets the status it is given.
\<close>

lemma updateTransactionStatus_unguarded:
  "updateTransactionStatus ''init-1700000000000'' Pending None None [tx_confirmed]
     = [tx_confirmed\<lparr>tx_status := Some Pending\<rparr>]"
  by (simp add: updateTransactionStatus_def tx_confirmed_def)

text \<open>
  Claim C8. \<^verbatim>\<open>clearOldTransactions\<close> keeps every pending record whatever its age (the
  pending records of the result are those of the queue, in the same order), removes every
  confirmed or failed record whose timestamp is more than one hour before the clock
  reading, and keeps every record younger than that.
\<close>

theorem prune_keeps_pending_removes_old:
  "filter (\<lambda>tx. tx_status tx = Some Pending) (clearOldTransactions now q)
     = filter (\<lambda>tx. tx_status tx = Some Pending) q \<and>
   (\<forall>tx \<in> set q. (tx_status tx = Some Confirmed \<or> tx_status tx = Some Failed)
        \<and> tx_timestamp tx < now - 60 * 60 * 1000
      \<longrightarrow> tx \<notin> set (clearOldTransactions now q)) \<and>
   filter (\<lambda>tx. tx_timestamp tx > now - 60 * 60 * 1000) (clearOldTransactions now q)
     = filter (\<lambda>tx. tx_timestamp tx > now - 60 * 60 * 1000) q"
proof (intro conjI ballI impI)
  show "filter (\<lambda>tx. tx_status tx = Some Pending) (clearOldTransactions now q)
     = filter (\<lambda>tx. tx_status tx = Some Pending) q"
    unfolding clearOldTransactions_def Let_def filter_filter
    by (rule filter_cong) auto
next
  fix tx
  assume "tx \<in> set q"
    and "(tx_status tx = Some Confirmed \<or> tx_status tx = Some Failed)
           \<and> tx_timestamp tx < now - 60 * 60 * 1000"
  then show "tx \<notin> set (clearOldTransactions now q)"
    by (auto simp: clearOldTransactions_def)
next
  show "filter (\<lambda>tx. tx_timestamp tx > now - 60 * 60 * 1000) (clearOldTransactions now q)
     = filter (\<lambda>tx. tx_timestamp tx > now - 60 * 60 * 1000) q"
    unfolding clearOldTransactions_def Let_def filter_filter
    by (rule filter_cong) auto
qed

theorem prune_keeps_pending_removes_old_witness:
  "tx_failed_old \<in> set [tx_failed_old, tx_pending, tx_confirmed] \<and>
   tx_status tx_failed_old = Some Failed \<and>
   tx_timestamp tx_failed_old < 1700000006000 - 60 * 60 * 1000 \<and>
   tx_failed_old \<notin> set (clearOldTransactions 1700000006000 [tx_failed_old, tx_pending, tx_confirmed]) \<and>
   clearOldTransactions 1700000006000 [tx_failed_old, tx_pending, tx_confirmed]
     = [tx_pending, tx_confirmed]"
  using prune_keeps_pending_removes_old [of 1700000006000 "[tx_failed_old, tx_pending, tx_confirmed]"]
  by (simp add: clearOldTransactions_def tx_failed_old_def tx_pending_def tx_confirmed_def)

lemma pending_kept_whatever_age:
  "tx \<in> set q \<Longrightarrow> tx_status tx = Some Pending \<Longrightarrow> tx \<in> set (clearOldTransactions now q)"
  by (simp add: clearOldTransactions_def)

subsection \<open>Reconciling the pending flag\<close>

lemma reachable_stale_false: "reachable stale_false"
proof -
  have "reachable \<lparr>queue = [], isPending = False, localStorage = Map.empty, chainCalls = []\<rparr>"
    by (rule reachable.init)
  from reachable.add [OF this, of tx_pending] show ?thesis
    by (simp add: stale_false_def addToQueue_def)
qed

text \<open>
  Claim C5 says that after \<^verbatim>\<open>checkAndFixPendingState\<close> the flag equals the recomputed
  predicate in both stale directions. In the state reached by \<^verbatim>\<open>addToQueue\<close> of a pending
  record, where the flag is still \<^verbatim>\<open>false\<close>, the call returns \<^verbatim>\<open>true\<close> and leaves
  the flag \<^verbatim>\<open>false\<close>: the function only has the branch \<^verbatim>\<open>isPending && !actuallyHasPending\<close>.
\<close>

theorem reconcile_leaves_stale_false:
  "reachable stale_false \<and>
   isPending (snd (checkAndFixPendingState stale_false))
     \<noteq> hasPending (queue (snd (checkAndFixPendingState stale_false)))"
  using reachable_stale_false
  by (simp add: checkAndFixPendingState_def hasPending_def stale_false_def tx_pending_def)

text \<open>
  Claim C5, amended. \<^verbatim>\<open>checkAndFixPendingState\<close> returns the recomputed predicate
  "some record is pending", leaves the queue as it is, and leaves the flag set only if it
  was set and some record is pending: a flag stuck at \<^verbatim>\<open>true\<close> with no pending record is
  reset, a flag that is \<^verbatim>\<open>false\<close> stays \<^verbatim>\<open>false\<close>.
\<close>

theorem reconcile_resets_stale_true:
  "fst (checkAndFixPendingState s) = hasPending (queue s) \<and>
   queue (snd (checkAndFixPendingState s)) = queue s \<and>
   isPending (snd (checkAndFixPendingState s)) = (isPending s \<and> hasPending (queue s))"
  by (auto simp add: checkAndFixPendingState_def Let_def)

theorem reconcile_resets_stale_true_witness:
  "isPending stale_true \<and> \<not> hasPending (queue stale_true) \<and>
   \<not> fst (checkAndFixPendingState stale_true) \<and>
   \<not> isPending (snd (checkAndFixPendingState stale_true))"
  using reconcile_resets_stale_true [of stale_true]
  by (simp add: stale_true_def hasPending_def tx_confirmed_def)

lemma saveEffect_syncs: "isPending (saveEffect s) = hasPending (queue (saveEffect s))"
  by (simp add: saveEffect_def)

subsection \<open>Jumps\<close>

lemma slice_last_keeps_suffix:
  "length ys \<le> k \<Longrightarrow> set ys \<subseteq> set (slice_last k (xs @ ys))"
  by (auto simp: slice_last_def)

lemma new_jump_stored:
  "makeJump j \<in> set (w_processedJumps (addJumpToBatch t1 t2 j w)
                      @ w_pendingJumps (addJumpToBatch t1 t2 j w))"
proof (cases "length (w_pendingJumps w @ [makeJump j]) \<ge> 10")
  case False
  then show ?thesis by (simp add: addJumpToBatch_def Let_def)
next
  case True
  let ?new = "w_pendingJumps w @ [makeJump j]"
  have "makeJump j \<in> set (take 10 ?new) \<union> set (drop 10 ?new)"
    by (metis append_take_drop_id in_set_conv_decomp set_append)
  moreover have "set (take 10 ?new) \<subseteq> set (slice_last 50 (w_processedJumps w @ take 10 ?new))"
    by (rule slice_last_keeps_suffix) simp
  ultimately show ?thesis using True
    by (auto simp add: addJumpToBatch_def Let_def)
qed

text \<open>
  Claim C10. The jump that \<^verbatim>\<open>addJumpToBatch\<close> stores (in the pending list, or in the
  processed list when it completes a batch of ten) has the input's \<^verbatim>\<open>scoreAtJump\<close> when
  that is not 0 and 1 otherwise, and likewise for \<^verbatim>\<open>multiplierAtJump\<close>.
\<close>

theorem jump_at_score_zero_recorded_as_one:
  "scoreAtJump (makeJump j) = (if scoreAtJump j = 0 then 1 else scoreAtJump j) \<and>
   multiplierAtJump (makeJump j) = (if multiplierAtJump j = 0 then 1 else multiplierAtJump j) \<and>
   makeJump j \<in> set (w_processedJumps (addJumpToBatch t1 t2 j w)
                      @ w_pendingJumps (addJumpToBatch t1 t2 j w))"
  using new_jump_stored [of j t1 t2 w] by (simp add: makeJump_def js_or_def)

theorem jump_at_score_zero_recorded_as_one_witness:
  "scoreAtJump jump0 = 0 \<and>
   w_pendingJumps (addJumpToBatch 1700000000000 1700000000000 jump0 wallet0)
     = [\<lparr>timestamp = 1700000000, scoreAtJump = 1, multiplierAtJump = 1\<rparr>]"
  using jump_at_score_zero_recorded_as_one [of jump0 1700000000000 1700000000000 wallet0]
  by (simp add: addJumpToBatch_def makeJump_def js_or_def jump0_def wallet0_def)

section \<open>Properties of the submission over several endpoints\<close>

lemma attempt_body_requests:
  "rq \<in> set (snd (attempt_body wallet formatEther ep k)) \<Longrightarrow>
   \<exists>fee. getFeeData ep = Inr fee \<and> rq_gasPrice rq = retry_gasPrice fee \<and> rq_endpoint rq = k"
  by (auto simp: attempt_body_def Let_def split: sum.splits option.splits if_splits)

lemma retry_requests:
  "rq \<in> set (snd (snd (sendTransactionWithRetry wallet formatEther eps n k))) \<Longrightarrow>
   \<exists>fee. getFeeData (eps (rq_endpoint rq)) = Inr fee \<and> rq_gasPrice rq = retry_gasPrice fee"
proof (induction wallet formatEther eps n k rule: sendTransactionWithRetry.induct)
  case (1 wallet formatEther eps n k)
  obtain a rqs where body: "attempt_body wallet formatEther (eps k) k = (a, rqs)"
    by (cases "attempt_body wallet formatEther (eps k) k")
  have here: "rq \<in> set rqs \<Longrightarrow> ?case"
    using attempt_body_requests [of rq wallet formatEther "eps k" k] body by auto
  show ?case
  proof (cases a)
    case (Returned receipt)
    with "1.prems" body here show ?thesis
      by (simp add: sendTransactionWithRetry.simps [of wallet formatEther eps n k])
  next
    case (ProbeFailed error)
    show ?thesis
    proof (cases "k + 1 < n")
      case True
      with "1.prems" body ProbeFailed here "1.IH"(1) [OF refl body [symmetric] refl ProbeFailed True]
      show ?thesis
        by (auto simp add: sendTransactionWithRetry.simps [of wallet formatEther eps n k])
    next
      case False
      with "1.prems" body ProbeFailed here show ?thesis
        by (simp add: sendTransactionWithRetry.simps [of wallet formatEther eps n k])
    qed
  next
    case (Threw error)
    show ?thesis
    proof (cases "k + 1 < n \<and> (message_includes error ''timeout'' \<or> message_includes error ''network'')")
      case True
      with "1.prems" body Threw here "1.IH"(2) [OF refl body [symmetric] refl Threw True]
      show ?thesis
        by (auto simp add: sendTransactionWithRetry.simps [of wallet formatEther eps n k])
    next
      case False
      with "1.prems" body Threw here show ?thesis
        by (auto simp add: sendTransactionWithRetry.simps [of wallet formatEther eps n k])
    qed
  qed
qed

lemma insufficient_balance_no_retry:
  assumes "wallet" and "getBlockNumber (eps k) = None"
    and "getTransactionCount (eps k) = Inr nonce"
    and "getFeeData (eps k) = Inr fee" and "getBalance (eps k) = Inr balance"
    and "balance < retry_gasPrice fee * 500000"
    and "\<not> message_includes (Some (''Insufficient funds. Need at least '' @ formatEther balance @ '' STT for gas.'')) ''timeout''"
    and "\<not> message_includes (Some (''Insufficient funds. Need at least '' @ formatEther balance @ '' STT for gas.'')) ''network''"
  shows "sendTransactionWithRetry wallet formatEther eps n k
           = (Inl (Some (errorMessage (Some (''Insufficient funds. Need at least '' @ formatEther balance @ '' STT for gas.'')))), [k], [])"
proof -
  define m where "m = ''Insufficient funds. Need at least '' @ formatEther balance @ '' STT for gas.''"
  have body: "attempt_body wallet formatEther (eps k) k = (Threw (Some m), [])"
    using assms(1-6) unfolding attempt_body_def m_def by (simp add: Let_def)
  have "\<not> (message_includes (Some m) ''timeout'' \<or> message_includes (Some m) ''network'')"
    using assms(7,8) unfolding m_def by blast
  with body have "sendTransactionWithRetry wallet formatEther eps n k
           = (Inl (Some (errorMessage (Some m))), [k], [])"
    by (simp add: sendTransactionWithRetry.simps [of wallet formatEther eps n k])
  then show ?thesis unfolding m_def .
qed

lemma attempt_ok_eval:
  "attempt_body True formatEther ep_ok k
     = (Returned ''0xabc'',
        [\<lparr>rq_endpoint = k, rq_nonce = 7, rq_gasPrice = 1500000000, rq_gasLimit = 150000\<rparr>])"
  by (simp add: attempt_body_def ep_ok_def retry_gasPrice_def Let_def)

lemma retry_ok_eval:
  "sendTransactionWithRetry True (\<lambda>b. ''1.0'') (\<lambda>k. ep_ok) 2 0
     = (Inr ''0xabc'', [0],
        [\<lparr>rq_endpoint = 0, rq_nonce = 7, rq_gasPrice = 1500000000, rq_gasLimit = 150000\<rparr>])"
  by (simp add: sendTransactionWithRetry.simps [of True _ _ 2 0] attempt_ok_eval)

text \<open>
  Claim C9. Every request that \<^verbatim>\<open>sendTransactionWithRetry\<close> submits carries as gas
  price the fee estimate of its endpoint times 150 divided by 100 when the estimate is
  there, and 20 gwei when it is \<^verbatim>\<open>null\<close>; \<^verbatim>\<open>handleEndGame\<close> computes the same price.
\<close>

theorem legacy_gas_price_markup:
  "(\<forall>rq \<in> set (snd (snd (sendTransactionWithRetry wallet formatEther eps n k))).
      (\<exists>g. getFeeData (eps (rq_endpoint rq)) = Inr (Some g) \<and> rq_gasPrice rq = (g * 150) div 100)
      \<or> (getFeeData (eps (rq_endpoint rq)) = Inr None \<and> rq_gasPrice rq = 20 * 10 ^ 9)) \<and>
   handleEndGame_gasPrice (Some g) = (g * 150) div 100 \<and>
   handleEndGame_gasPrice None = 20 * 10 ^ 9"
proof (intro conjI ballI)
  fix rq
  assume "rq \<in> set (snd (snd (sendTransactionWithRetry wallet formatEther eps n k)))"
  then obtain fee where "getFeeData (eps (rq_endpoint rq)) = Inr fee"
    and "rq_gasPrice rq = retry_gasPrice fee"
    using retry_requests by blast
  then show "(\<exists>g. getFeeData (eps (rq_endpoint rq)) = Inr (Some g) \<and> rq_gasPrice rq = (g * 150) div 100)
      \<or> (getFeeData (eps (rq_endpoint rq)) = Inr None \<and> rq_gasPrice rq = 20 * 10 ^ 9)"
    by (cases fee) (simp_all add: retry_gasPrice_def)
qed (simp_all add: handleEndGame_gasPrice_def)

theorem legacy_gas_price_markup_witness:
  "snd (snd (sendTransactionWithRetry True (\<lambda>b. ''1.0'') (\<lambda>k. ep_ok) 2 0))
     = [\<lparr>rq_endpoint = 0, rq_nonce = 7, rq_gasPrice = 1500000000, rq_gasLimit = 150000\<rparr>] \<and>
   getFeeData ep_ok = Inr (Some 1000000000) \<and>
   (1000000000 * 150) div 100 = (1500000000 :: nat) \<and>
   handleEndGame_gasPrice (Some 1000000000) = 1500000000 \<and>
   handleEndGame_gasPrice None = 20000000000"
  using legacy_gas_price_markup [of True "\<lambda>b. ''1.0''" "\<lambda>k. ep_ok" 2 0 1000000000]
  unfolding retry_ok_eval by (simp add: ep_ok_def handleEndGame_gasPrice_def)

lemma insufficient_message_facts:
  "\<not> message_includes (Some ''Insufficient funds. Need at least 0.0 STT for gas.'') ''timeout''"
  "\<not> message_includes (Some ''Insufficient funds. Need at least 0.0 STT for gas.'') ''network''"
  "\<not> message_includes (Some ''Insufficient funds. Need at least 0.0 STT for gas.'') ''insufficient funds''"
  "errorMessage (Some ''Insufficient funds. Need at least 0.0 STT for gas.'') = ''Transaction failed''"
  by code_simp+

text \<open>
  Claim C7 says that a balance below the worst-case cost makes the operation fail with an
  insufficient-funds error. On the first of two endpoints, with a fee estimate of 1 gwei
  and an empty balance, the operation stops without trying the second endpoint, as the
  claim says, but the error it throws is the generic \<^verbatim>\<open>'Transaction failed'\<close>: the
  \<^verbatim>\<open>catch\<close> block looks for \<^verbatim>\<open>'insufficient funds'\<close> in a message that starts with
  \<^verbatim>\<open>'Insufficient funds'\<close>.
\<close>

theorem insufficient_balance_surfaces_generic_error:
  "sendTransactionWithRetry True (\<lambda>b. ''0.0'') (\<lambda>k. ep_poor) 2 0
     = (Inl (Some ''Transaction failed''), [0], [])"
proof -
  have "sendTransactionWithRetry True (\<lambda>b. ''0.0'') (\<lambda>k. ep_poor) 2 0
     = (Inl (Some (errorMessage (Some (''Insufficient funds. Need at least '' @ ''0.0'' @ '' STT for gas.'')))), [0], [])"
    by (rule insufficient_balance_no_retry [where nonce = 7 and fee = "Some 1000000000" and balance = 0])
       (simp_all add: ep_poor_def ep_ok_def retry_gasPrice_def insufficient_message_facts)
  then show ?thesis by (simp add: insufficient_message_facts)
qed

lemma flavored_failure_retries:
  assumes "attempt_body wallet formatEther (eps k) k = (Threw error, rqs)"
    and "k + 1 < n"
    and "message_includes error ''timeout'' \<or> message_includes error ''network''"
  shows "fst (sendTransactionWithRetry wallet formatEther eps n k)
           = fst (sendTransactionWithRetry wallet formatEther eps n (k + 1))"
    and "fst (snd (sendTransactionWithRetry wallet formatEther eps n k))
           = k # fst (snd (sendTransactionWithRetry wallet formatEther eps n (k + 1)))"
  using assms
  by (simp_all add: sendTransactionWithRetry.simps [of wallet formatEther eps n k])

lemma probe_failure_retries:
  assumes "attempt_body wallet formatEther (eps k) k = (ProbeFailed error, rqs)"
    and "k + 1 < n"
  shows "fst (sendTransactionWithRetry wallet formatEther eps n k)
           = fst (sendTransactionWithRetry wallet formatEther eps n (k + 1))"
    and "fst (snd (sendTransactionWithRetry wallet formatEther eps n k))
           = k # fst (snd (sendTransactionWithRetry wallet formatEther eps n (k + 1)))"
  using assms
  by (simp_all add: sendTransactionWithRetry.simps [of wallet formatEther eps n k])

lemma timeout_message_fact: "message_includes (Some ''timeout exceeded'') ''timeout''"
  by code_simp

lemma timeout_then_ok_eval:
  "fst (sendTransactionWithRetry True formatEther (\<lambda>k. if k = 0 then ep_slow else ep_ok) 2 0)
     = Inr ''0xabc'' \<and>
   fst (snd (sendTransactionWithRetry True formatEther (\<lambda>k. if k = 0 then ep_slow else ep_ok) 2 0))
     = [0, 1]"
proof -
  let ?eps = "\<lambda>k::nat. if k = 0 then ep_slow else ep_ok"
  have b0: "attempt_body True formatEther (?eps 0) 0
     = (Threw (Some ''timeout exceeded''),
        [\<lparr>rq_endpoint = 0, rq_nonce = 7, rq_gasPrice = 1500000000, rq_gasLimit = 150000\<rparr>])"
    by (simp add: attempt_body_def ep_slow_def ep_ok_def retry_gasPrice_def Let_def)
  have b1: "attempt_body True formatEther (?eps 1) 1 = attempt_body True formatEther ep_ok 1"
    by simp
  have r1: "sendTransactionWithRetry True formatEther ?eps 2 (0 + 1)
     = (Inr ''0xabc'', [1],
        [\<lparr>rq_endpoint = 1, rq_nonce = 7, rq_gasPrice = 1500000000, rq_gasLimit = 150000\<rparr>])"
    by (simp add: sendTransactionWithRetry.simps [of True _ _ 2 "Suc 0"] attempt_ok_eval)
  note retry = flavored_failure_retries
    [where wallet = True and formatEther = formatEther and eps = ?eps and k = 0 and n = 2
       and error = "Some ''timeout exceeded''", OF b0]
  from retry timeout_message_fact r1 show ?thesis by simp
qed

section \<open>Properties of endGame\<close>

lemma saveScoreLocally_Inr:
  "saveScoreLocally env gameId finalScore totalJumps s = Inr s1 \<Longrightarrow>
   read_localScores (localStorage s1) \<noteq> None \<and> has_local_score gameId finalScore s1
   \<and> queue s1 = queue s \<and> chainCalls s1 = chainCalls s"
  by (auto simp: saveScoreLocally_def read_localScores_def has_local_score_def
      split: option.splits stored_doc.splits)

lemma saveScoreLocally_Inl:
  "saveScoreLocally env gameId finalScore totalJumps s = Inl e \<Longrightarrow>
   read_localScores (localStorage s) = None"
  by (auto simp: saveScoreLocally_def split: option.splits)

lemma txCatch_store:
  "txCatch env gameId finalScore totalJumps txError s = (e, s') \<Longrightarrow>
   read_localScores (localStorage s) \<noteq> None \<Longrightarrow>
   read_localScores (localStorage s') \<noteq> None"
  by (auto simp: txCatch_def Let_def split: sum.splits option.splits
      dest: saveScoreLocally_Inr)

lemma submitEndGame_store:
  assumes "submitEndGame env gameId finalScore totalJumps txId gasPrice s = (r, s')"
    and "read_localScores (localStorage s) \<noteq> None"
  shows "read_localScores (localStorage s') \<noteq> None"
  using assms
  by (auto simp: submitEndGame_def Let_def split: sum.splits option.splits prod.splits
      dest!: txCatch_store saveScoreLocally_Inr)

lemma submitEndGame_fails:
  assumes "env_endGame env = Inl e \<or> env_wait env = Some e"
  shows "\<exists>err. fst (submitEndGame env gameId finalScore totalJumps txId gasPrice s) = Inl err"
  using assms
  by (auto simp: submitEndGame_def Let_def split: sum.splits option.splits prod.splits)

lemma endGame_try_store:
  assumes "endGame_try env gameId finalScore totalJumps s = (r, s')"
    and "read_localScores (localStorage s) \<noteq> None"
  shows "read_localScores (localStorage s') \<noteq> None"
  using assms
  by (auto simp: endGame_try_def Let_def split: if_splits sum.splits option.splits
      dest!: submitEndGame_store)

lemma endGame_try_fails:
  assumes "env_endGame env = Inl e \<or> env_wait env = Some e"
  shows "\<exists>err. fst (endGame_try env gameId finalScore totalJumps s) = Inl err"
  using submitEndGame_fails [OF assms, of gameId finalScore totalJumps]
  by (auto simp: endGame_try_def Let_def split: sum.splits option.splits)

lemma endGame_catch_saves:
  assumes "read_localScores (localStorage s) \<noteq> None"
  shows "has_local_score gameId finalScore (snd (endGame_catch env gameId finalScore totalJumps error s))"
    and "has_local_record gameId finalScore (snd (endGame_catch env gameId finalScore totalJumps error s))"
    and "fst (endGame_catch env gameId finalScore totalJumps error s)
           = \<lparr>r_success = True, r_hash = None, r_localOnly = True,
              r_message = r_message (fst (endGame_catch env gameId finalScore totalJumps error s))\<rparr>"
    and "\<exists>xs. localStorage (snd (endGame_catch env gameId finalScore totalJumps error s))
                ''flappySomnia_localScores''
              = Some (ArrayDoc (xs @ [ScoreItem
                  \<lparr>ls_gameId = gameId, ls_address = None, ls_score = Some finalScore,
                   ls_totalJumps = totalJumps,
                   ls_timestamp = Some (env_now env 861 div 1000)\<rparr>]))"
    and "\<exists>m. queue (snd (endGame_catch env gameId finalScore totalJumps error s))
              = queue s @ [local_record (env_now env 877) (env_now env 882)
                             gameId finalScore totalJumps m]"
  using assms
  by (auto simp: endGame_catch_def Let_def has_local_score_def has_local_record_def
      local_record_def end_data_def addToQueue_def split: option.splits)

text \<open>
  Claim C2. When the contract and the signer are set and the chain submission fails (the
  call of \<^verbatim>\<open>contract.endGame\<close> is rejected, or the wait for the receipt is rejected or
  times out), with any error, also one without a message, then after \<^verbatim>\<open>endGame\<close> the
  local-scores store has an entry with the game id and the final score, and the queue
  has a confirmed end-of-game record flagged \<^verbatim>\<open>localOnly\<close> for them: they are the last
  entry of the store and the last record of the queue, stamped with the clock readings of
  this call. The call returns \<^verbatim>\<open>{ success: true, localOnly: true, ... }\<close>. The store is taken to hold what the code
  writes there: nothing, an unparsable string or an array.
\<close>

theorem local_save_on_chain_failure:
  assumes "env_contract env"
    and "env_endGame env = Inl e \<or> env_wait env = Some e"
    and "read_localScores (localStorage s) \<noteq> None"
  shows "has_local_score gameId finalScore (snd (endGame env gameId finalScore totalJumps s)) \<and>
         has_local_record gameId finalScore (snd (endGame env gameId finalScore totalJumps s)) \<and>
         (\<exists>m. fst (endGame env gameId finalScore totalJumps s)
                = Inr \<lparr>r_success = True, r_hash = None, r_localOnly = True, r_message = m\<rparr>) \<and>
         (\<exists>xs. localStorage (snd (endGame env gameId finalScore totalJumps s))
                 ''flappySomnia_localScores''
               = Some (ArrayDoc (xs @ [ScoreItem
                   \<lparr>ls_gameId = gameId, ls_address = None, ls_score = Some finalScore,
                    ls_totalJumps = totalJumps,
                    ls_timestamp = Some (env_now env 861 div 1000)\<rparr>]))) \<and>
         (\<exists>q m. queue (snd (endGame env gameId finalScore totalJumps s))
               = q @ [local_record (env_now env 877) (env_now env 882)
                        gameId finalScore totalJumps m])"
proof -
  obtain r s1 where tried: "endGame_try env gameId finalScore totalJumps s = (r, s1)"
    by (cases "endGame_try env gameId finalScore totalJumps s")
  with endGame_try_fails [OF assms(2), of gameId finalScore totalJumps s]
  obtain err where r: "r = Inl err" by auto
  from endGame_try_store [OF tried assms(3)]
  have store: "read_localScores (localStorage s1) \<noteq> None" .
  have run: "endGame env gameId finalScore totalJumps s
               = (Inr (fst (endGame_catch env gameId finalScore totalJumps err s1)),
                  snd (endGame_catch env gameId finalScore totalJumps err s1))"
    using assms(1) tried r by (simp add: endGame_def split: prod.splits)
  note saved = endGame_catch_saves [OF store, where gameId = gameId
      and finalScore = finalScore and env = env and totalJumps = totalJumps and error = err]
  from saved(1,2) have "has_local_score gameId finalScore (snd (endGame env gameId finalScore totalJumps s))"
    and "has_local_record gameId finalScore (snd (endGame env gameId finalScore totalJumps s))"
    by (simp_all add: run)
  moreover from saved(3)
  have "\<exists>m. fst (endGame env gameId finalScore totalJumps s)
                = Inr \<lparr>r_success = True, r_hash = None, r_localOnly = True, r_message = m\<rparr>"
    unfolding run by (simp, metis)
  moreover from saved(4)
  have "\<exists>xs. localStorage (snd (endGame env gameId finalScore totalJumps s))
                 ''flappySomnia_localScores''
               = Some (ArrayDoc (xs @ [ScoreItem
                   \<lparr>ls_gameId = gameId, ls_address = None, ls_score = Some finalScore,
                    ls_totalJumps = totalJumps,
                    ls_timestamp = Some (env_now env 861 div 1000)\<rparr>]))"
    unfolding run by simp
  moreover from saved(5)
  have "\<exists>q m. queue (snd (endGame env gameId finalScore totalJumps s))
               = q @ [local_record (env_now env 877) (env_now env 882)
                        gameId finalScore totalJumps m]"
    unfolding run by auto
  ultimately show ?thesis by blast
qed

theorem local_save_on_chain_failure_witness:
  "env_contract env_offline \<and> env_endGame env_offline = Inl None \<and>
   read_localScores (localStorage app0) \<noteq> None \<and>
   has_local_score (Num 5) (Num 120) (snd (endGame env_offline (Num 5) (Num 120) 33 app0)) \<and>
   has_local_record (Num 5) (Num 120) (snd (endGame env_offline (Num 5) (Num 120) 33 app0))"
  using local_save_on_chain_failure [of env_offline None app0 "Num 5" "Num 120" 33]
  by (simp add: env_offline_def env_ok_def app0_def read_localScores_def)

lemma violation_markers:
  "str_includes ''Game has already ended'' ''already ended''"
  "str_includes ''You can only end games that you started'' ''only end games''"
  by code_simp+

lemma verifyGame_violation:
  assumes "env_games env = Inr gi" and "env_getAddress env = Inr a"
    and "gi_ended gi \<or> toLowerCase (gi_player gi) \<noteq> toLowerCase a"
  shows "verifyGame env = Some (Some (if gi_ended gi then ''Game has already ended''
                                      else ''You can only end games that you started''))"
  using assms violation_markers by (auto simp add: verifyGame_def)

lemma verifyGame_unreadable:
  assumes "env_games env = Inl (Some m)"
    and "\<not> str_includes m ''already ended''" and "\<not> str_includes m ''only end games''"
  shows "verifyGame env = None"
  using assms by (simp add: verifyGame_def)

lemma txCatch_chainCalls:
  "chainCalls (snd (txCatch env gameId finalScore totalJumps txError s)) = chainCalls s"
  by (auto simp: txCatch_def Let_def split: sum.splits option.splits
      dest: saveScoreLocally_Inr)

lemma txCatch_chainCalls_dest:
  "txCatch env gameId finalScore totalJumps txError s = (e, s') \<Longrightarrow> chainCalls s' = chainCalls s"
  using txCatch_chainCalls [of env gameId finalScore totalJumps txError s] by simp

lemma endGame_catch_chainCalls:
  "chainCalls (snd (endGame_catch env gameId finalScore totalJumps error s)) = chainCalls s"
  by (simp add: endGame_catch_def Let_def split: option.splits)

lemma submitEndGame_chainCalls:
  "chainCalls (snd (submitEndGame env gameId finalScore totalJumps txId gasPrice s))
     = chainCalls s @ [\<lparr>c_gameId = gameId, c_finalScore = finalScore, c_totalJumps = totalJumps,
                         c_gasLimit = 5000000, c_gasPrice = gasPrice\<rparr>]"
  by (auto simp: submitEndGame_def Let_def
      split: sum.splits option.splits prod.splits
      dest!: saveScoreLocally_Inr txCatch_chainCalls_dest)

lemma endGame_violation:
  assumes "env_contract env" and "0 < g" and "0 \<le> f"
    and "env_switch env = None" and "env_getAddress env = Inr a"
    and "env_games env = Inr gi"
    and "gi_ended gi \<or> toLowerCase (gi_player gi) \<noteq> toLowerCase a"
  shows "fst (endGame env (Num g) (Num f) totalJumps s)
           = Inr \<lparr>r_success = True, r_hash = None, r_localOnly = True,
                  r_message = Some (if gi_ended gi then ''Game has already ended''
                                    else ''You can only end games that you started'')\<rparr>"
    and "chainCalls (snd (endGame env (Num g) (Num f) totalJumps s)) = chainCalls s"
proof -
  define msg where "msg = (if gi_ended gi then ''Game has already ended''
                           else ''You can only end games that you started'')"
  have v: "verifyGame env = Some (Some msg)"
    unfolding msg_def by (rule verifyGame_violation [OF assms(6) assms(5) assms(7)])
  have tried: "endGame_try env (Num g) (Num f) totalJumps s
                 = (Inl (Some msg), snd (endGame_try env (Num g) (Num f) totalJumps s))"
    and s1: "chainCalls (snd (endGame_try env (Num g) (Num f) totalJumps s)) = chainCalls s"
    using assms(2-5) v
    by (simp_all add: endGame_try_def isNaN_def num_le_def num_less_def Let_def)
  have m: "msg \<noteq> []" by (simp add: msg_def)
  have run: "endGame env (Num g) (Num f) totalJumps s
      = (Inr (fst (endGame_catch env (Num g) (Num f) totalJumps (Some msg)
                     (snd (endGame_try env (Num g) (Num f) totalJumps s)))),
         snd (endGame_catch env (Num g) (Num f) totalJumps (Some msg)
                (snd (endGame_try env (Num g) (Num f) totalJumps s))))"
    using assms(1) by (subst endGame_def, subst tried) (simp add: case_prod_beta)
  from m have "fst (endGame env (Num g) (Num f) totalJumps s)
           = Inr \<lparr>r_success = True, r_hash = None, r_localOnly = True, r_message = Some msg\<rparr>"
    unfolding run by (simp add: endGame_catch_def Let_def)
  then show "fst (endGame env (Num g) (Num f) totalJumps s)
           = Inr \<lparr>r_success = True, r_hash = None, r_localOnly = True,
                  r_message = Some (if gi_ended gi then ''Game has already ended''
                                    else ''You can only end games that you started'')\<rparr>"
    unfolding msg_def .
  show "chainCalls (snd (endGame env (Num g) (Num f) totalJumps s)) = chainCalls s"
    unfolding run using s1 by (simp add: endGame_catch_chainCalls)
qed

lemma endGame_unverified_submits:
  assumes "env_contract env" and "0 < g" and "0 \<le> f"
    and "env_switch env = None" and "env_getAddress env = Inr a"
    and "env_games env = Inl (Some m)"
    and "\<not> str_includes m ''already ended''" and "\<not> str_includes m ''only end games''"
  shows "chainCalls (snd (endGame env (Num g) (Num f) totalJumps s))
           = chainCalls s @ [\<lparr>c_gameId = Num g, c_finalScore = Num f, c_totalJumps = totalJumps,
                               c_gasLimit = 5000000,
                               c_gasPrice = endGame_gasPrice (env_getFeeData env)\<rparr>]"
proof -
  have v: "verifyGame env = None"
    using assms(6-8) by (rule verifyGame_unreadable)
  have tried: "chainCalls (snd (endGame_try env (Num g) (Num f) totalJumps s))
           = chainCalls s @ [\<lparr>c_gameId = Num g, c_finalScore = Num f, c_totalJumps = totalJumps,
                               c_gasLimit = 5000000,
                               c_gasPrice = endGame_gasPrice (env_getFeeData env)\<rparr>]"
    using assms(2-5) v
    by (simp add: endGame_try_def isNaN_def num_le_def num_less_def Let_def
        submitEndGame_chainCalls)
  show ?thesis
  proof (cases "endGame_try env (Num g) (Num f) totalJumps s")
    case (Pair r s1)
    with tried assms(1) show ?thesis
      by (cases r) (simp_all add: endGame_def endGame_catch_chainCalls case_prod_beta)
  qed
qed

text \<open>
  Claim C4 says that an observed semantic violation is surfaced as a fatal error and that
  the operation does not complete as a success. When the contract reports game 5 as
  ended, \<^verbatim>\<open>endGame(5, 120, 33, jumps)\<close> rethrows \<^verbatim>\<open>'Game has already ended'\<close> out of
  the verification, the outer \<^verbatim>\<open>catch\<close> takes it, and the call returns
  \<^verbatim>\<open>{ success: true, localOnly: true, message: 'Game has already ended' }\<close>.
\<close>

theorem semantic_violation_returns_success:
  "fst (endGame env_ended (Num 5) (Num 120) 33 app0)
     = Inr \<lparr>r_success = True, r_hash = None, r_localOnly = True,
            r_message = Some ''Game has already ended''\<rparr>"
  using endGame_violation(1) [of env_ended 5 120 "''0xAbC1''"
      "\<lparr>gi_ended = True, gi_player = ''0xabc1''\<rparr>" 33 app0]
  by (simp add: env_ended_def env_ok_def)

text \<open>
  Claim C4, amended. For a call with the contract and the signer set, a positive game id,
  a score that is not negative, the network switched and the signer's address known:
  when the verification sees the game ended or started by another player, no transaction
  is handed to the contract and the call returns
  \<^verbatim>\<open>{ success: true, localOnly: true, message }\<close> with the message of the violation;
  when the verification fails with a message that contains neither
  \<^verbatim>\<open>'already ended'\<close> nor \<^verbatim>\<open>'only end games'\<close>, the transaction is handed to the contract.
\<close>

theorem semantic_violation_blocks_submission:
  assumes "env_contract env" and "0 < g" and "0 \<le> f"
    and "env_switch env = None" and "env_getAddress env = Inr a"
  shows "(env_games env = Inr gi \<and> (gi_ended gi \<or> toLowerCase (gi_player gi) \<noteq> toLowerCase a)
          \<longrightarrow> fst (endGame env (Num g) (Num f) totalJumps s)
                = Inr \<lparr>r_success = True, r_hash = None, r_localOnly = True,
                       r_message = Some (if gi_ended gi then ''Game has already ended''
                                         else ''You can only end games that you started'')\<rparr>
              \<and> chainCalls (snd (endGame env (Num g) (Num f) totalJumps s)) = chainCalls s) \<and>
         (env_games env = Inl (Some m) \<and> \<not> str_includes m ''already ended''
            \<and> \<not> str_includes m ''only end games''
          \<longrightarrow> chainCalls (snd (endGame env (Num g) (Num f) totalJumps s))
                = chainCalls s @ [\<lparr>c_gameId = Num g, c_finalScore = Num f,
                                    c_totalJumps = totalJumps, c_gasLimit = 5000000,
                                    c_gasPrice = endGame_gasPrice (env_getFeeData env)\<rparr>])"
  using endGame_violation [OF assms, of gi totalJumps s]
    endGame_unverified_submits [OF assms, of m totalJumps s]
  by blast

lemma offline_message_facts:
  "\<not> str_includes ''could not detect network'' ''already ended''"
  "\<not> str_includes ''could not detect network'' ''only end games''"
  by code_simp+

lemma lower_facts: "toLowerCase ''0xabc1'' = toLowerCase ''0xAbC1''"
  by code_simp

theorem semantic_violation_blocks_submission_witness:
  "fst (endGame env_ended (Num 5) (Num 120) 33 app0)
     = Inr \<lparr>r_success = True, r_hash = None, r_localOnly = True,
            r_message = Some ''Game has already ended''\<rparr> \<and>
   chainCalls (snd (endGame env_ended (Num 5) (Num 120) 33 app0)) = [] \<and>
   chainCalls (snd (endGame env_offline (Num 5) (Num 120) 33 app0))
     = [\<lparr>c_gameId = Num 5, c_finalScore = Num 120, c_totalJumps = 33,
         c_gasLimit = 5000000, c_gasPrice = 1500000000\<rparr>]"
  using semantic_violation_blocks_submission [of env_ended 5 120 "''0xAbC1''"
      "\<lparr>gi_ended = True, gi_player = ''0xabc1''\<rparr>" 33 app0 "[]"]
    semantic_violation_blocks_submission [of env_offline 5 120 "''0xAbC1''"
      "\<lparr>gi_ended = True, gi_player = ''0xabc1''\<rparr>" 33 app0 "''could not detect network''"]
    offline_message_facts
  by (simp add: env_ended_def env_offline_def env_ok_def app0_def endGame_gasPrice_def)

section \<open>Properties of the leaderboard merge\<close>

text \<open>
  Claim C3 says that the leaderboard merges the confirmed end-of-game records of the
  persisted transaction queue. The queue hook persists the queue under
  \<^verbatim>\<open>flappySomnia_transactionQueue\<close>; \<^verbatim>\<open>updateWithLocalScores\<close> reads
  \<^verbatim>\<open>flappyFuse_transactionQueue\<close>. With the queue of the claim's example persisted by the
  hook's effect, the result for the on-chain entries A:100, B:80 is those two entries,
  without C:120.
\<close>

theorem persisted_queue_not_read_by_leaderboard:
  "localStorage (saveEffect app_game5) ''flappySomnia_transactionQueue''
     = Some (ArrayDoc [TxItem tx_game5]) \<and>
   updateWithLocalScores (localStorage (saveEffect app_game5)) 1700000100000 onchain
     = [\<lparr>e_address = ''A'', e_score = Num 100, e_timestamp = 1700000000\<rparr>,
        \<lparr>e_address = ''B'', e_score = Num 80, e_timestamp = 1700000000\<rparr>]"
  by (simp add: saveEffect_def app_game5_def TRANSACTION_STORAGE_KEY_def stringify_queue_def
      updateWithLocalScores_def queue_entries_def score_entries_def onchain_def to_num_def)

lemma merge_under_the_key_read:
  "updateWithLocalScores
     (Map.empty(''flappyFuse_transactionQueue'' \<mapsto> stringify_queue [tx_game5]))
     1700000100000 onchain
   = [\<lparr>e_address = ''C'', e_score = Num 120, e_timestamp = 1700000000\<rparr>,
      \<lparr>e_address = ''A'', e_score = Num 100, e_timestamp = 1700000000\<rparr>,
      \<lparr>e_address = ''B'', e_score = Num 80, e_timestamp = 1700000000\<rparr>]"
  by (simp add: stringify_queue_def updateWithLocalScores_def queue_entries_def
      score_entries_def onchain_def to_num_def tx_game5_def end_data_def endGameTx_def
      List.map_filter_simps Object_values_def is_array_index_def)

lemma nothing_stored_nothing_merged:
  assumes "st ''flappyFuse_transactionQueue'' = None" and "st ''flappyFuse_localScores'' = None"
  shows "updateWithLocalScores st now currentEntries
           = take 10 (sort_key (\<lambda>e. - to_num (e_score e)) currentEntries)"
  using assms by (simp add: updateWithLocalScores_def queue_entries_def score_entries_def)

lemma saveEffect_other_keys:
  "k \<noteq> ''flappySomnia_transactionQueue'' \<Longrightarrow> localStorage (saveEffect s) k = localStorage s k"
  by (simp add: saveEffect_def TRANSACTION_STORAGE_KEY_def)

lemma saveScoreLocally_keys:
  "saveScoreLocally env gameId finalScore totalJumps s = Inr s1 \<Longrightarrow>
   k \<noteq> ''flappySomnia_localScores'' \<Longrightarrow> localStorage s1 k = localStorage s k"
  by (auto simp: saveScoreLocally_def split: option.splits)

lemma txCatch_keys:
  "txCatch env gameId finalScore totalJumps txError s = (e, s') \<Longrightarrow>
   k \<noteq> ''flappySomnia_localScores'' \<Longrightarrow> localStorage s' k = localStorage s k"
  by (auto simp: txCatch_def Let_def split: sum.splits option.splits
      dest: saveScoreLocally_keys)

lemma submitEndGame_keys:
  assumes "submitEndGame env gameId finalScore totalJumps txId gasPrice s = (r, s')"
    and "k \<noteq> ''flappySomnia_localScores''"
  shows "localStorage s' k = localStorage s k"
  using assms
  by (auto simp: submitEndGame_def Let_def split: sum.splits option.splits prod.splits
      dest!: txCatch_keys [where k = k] saveScoreLocally_keys [where k = k])

lemma endGame_try_keys:
  assumes "endGame_try env gameId finalScore totalJumps s = (r, s')"
    and "k \<noteq> ''flappySomnia_localScores''"
  shows "localStorage s' k = localStorage s k"
  using assms
  by (auto simp: endGame_try_def Let_def split: if_splits sum.splits option.splits
      dest!: submitEndGame_keys [where k = k])

lemma endGame_catch_keys:
  "k \<noteq> ''flappySomnia_localScores'' \<Longrightarrow>
   localStorage (snd (endGame_catch env gameId finalScore totalJumps error s)) k = localStorage s k"
  by (simp add: endGame_catch_def Let_def split: option.splits)

lemma endGame_keys:
  assumes "k \<noteq> ''flappySomnia_localScores''"
  shows "localStorage (snd (endGame env gameId finalScore totalJumps s)) k = localStorage s k"
proof (cases "endGame_try env gameId finalScore totalJumps s")
  case (Pair r s1)
  from endGame_try_keys [OF Pair assms] have "localStorage s1 k = localStorage s k" .
  with Pair assms show ?thesis
    by (cases r) (simp_all add: endGame_def case_prod_beta endGame_catch_keys)
qed

lemma leaderboard_ignores_endGame:
  "updateWithLocalScores (localStorage (snd (endGame env gameId finalScore totalJumps s))) now cur
     = updateWithLocalScores (localStorage s) now cur"
  by (simp add: updateWithLocalScores_def queue_entries_def score_entries_def endGame_keys)

end
